theory Spec2Isabelle
  imports Complex_Main "HOL-Library.Multiset" "HOL-Library.Word" "HOL-Library.List_Lexorder"
begin

section \<open>The bootstrap script of the 2-of-3 multisig wallet\<close>

text \<open>
  The program is one TypeScript file, \<^verbatim>\<open>bootstrap.multisig.ts\<close>: a few helpers
  (\<^verbatim>\<open>runCliCommand\<close>, \<^verbatim>\<open>toSigner\<close>, \<^verbatim>\<open>getErrorCode\<close>, \<^verbatim>\<open>sleep\<close>) and the function
  \<^verbatim>\<open>bootstrap\<close>, which runs eleven steps in sequence. The steps the properties below
  are about are embedded here, each as a function named after what it does, with the
  lines of the script it stands for. Whatever the script reads from outside
  (the answers of \<^verbatim>\<open>bitcoin-cli\<close>, the file system, the environment variables) is an
  explicit argument; whatever it calls in a library (key derivation, script
  compilation, hashing, transaction building) is an argument as well, so a theorem
  holds for every behaviour of the node and of the libraries, except where it names the
  behaviour it assumes. Messages printed with \<^verbatim>\<open>console.log\<close> are left out: they
  influence nothing.
\<close>

subsection \<open>Constants of the script\<close>

definition TOTAL_KEYS :: nat where
  "TOTAL_KEYS = 3"

definition REQUIRED_SIGNATURES :: nat where
  "REQUIRED_SIGNATURES = 2"

definition FAUCET_WALLET_NAME :: string where
  "FAUCET_WALLET_NAME = ''sky-wallet''"

definition MULTISIG_WALLET_NAME :: string where
  "MULTISIG_WALLET_NAME = ''test_multisig_wallet''"

text \<open>
  The environment of the process: \<^verbatim>\<open>process.env.BITCOIN_CLI\<close> and the two wallet
  directories, which the script computes with \<^verbatim>\<open>path.join\<close> from \<^verbatim>\<open>process.env.HOME\<close>.
  The directories and the parent directory (\<^verbatim>\<open>path.dirname\<close>) are taken as given.
\<close>

record config =
  env_BITCOIN_CLI :: "string option"
  WALLET_DIR :: string
  FAUCET_WALLET_DIR :: string
  dirname :: "string \<Rightarrow> string"

text \<open>\<^verbatim>\<open>process.env.BITCOIN_CLI || 'bitcoin-cli -regtest'\<close>: an unset or empty variable
  gives the default.\<close>

definition BITCOIN_CLI_BASE :: "config \<Rightarrow> string" where
  "BITCOIN_CLI_BASE cfg =
     (case env_BITCOIN_CLI cfg of
        None \<Rightarrow> ''bitcoin-cli -regtest''
      | Some s \<Rightarrow> if s = [] then ''bitcoin-cli -regtest'' else s)"

subsection \<open>Errors and the world outside the process\<close>

text \<open>Every \<^verbatim>\<open>throw new Error(msg)\<close> of the script is the value \<open>Error msg\<close>.\<close>

datatype error = Error string

fun message :: "error \<Rightarrow> string" where
  "message (Error m) = m"

text \<open>What \<^verbatim>\<open>execSync\<close> throws when the command fails: an object whose fields
  \<^verbatim>\<open>stderr\<close>, \<^verbatim>\<open>stdout\<close> and \<^verbatim>\<open>message\<close> may each be missing.\<close>

record exec_error =
  err_stderr :: "string option"
  err_stdout :: "string option"
  err_message :: "string option"

text \<open>
  The world is a state \<open>'w\<close> the script never looks into. The system interface gives,
  for a world, the outcome of a shell command and the next world, and the file system
  calls the script makes (\<^verbatim>\<open>fs.existsSync\<close>, \<^verbatim>\<open>fs.rmSync\<close>, \<^verbatim>\<open>fs.mkdirSync\<close>), which
  may throw as well.
\<close>

record 'w system =
  execSync :: "string \<Rightarrow> 'w \<Rightarrow> (exec_error + string) \<times> 'w"
  existsSync :: "string \<Rightarrow> 'w \<Rightarrow> bool"
  rmSync :: "string \<Rightarrow> 'w \<Rightarrow> (error + unit) \<times> 'w"
  mkdirSync :: "string \<Rightarrow> 'w \<Rightarrow> (error + unit) \<times> 'w"

text \<open>A step of the script: it runs in a world and either throws or returns, leaving
  a new world.\<close>

type_synonym ('w, 'a) step = "'w \<Rightarrow> (error + 'a) \<times> 'w"

definition return :: "'a \<Rightarrow> ('w, 'a) step" where
  "return x = (\<lambda>w. (Inr x, w))"

definition throw :: "error \<Rightarrow> ('w, 'a) step" where
  "throw e = (\<lambda>w. (Inl e, w))"

definition andThen :: "('w, 'a) step \<Rightarrow> ('a \<Rightarrow> ('w, 'b) step) \<Rightarrow> ('w, 'b) step" where
  "andThen m f = (\<lambda>w. case m w of (Inl e, w') \<Rightarrow> (Inl e, w') | (Inr x, w') \<Rightarrow> f x w')"

definition tryCatch :: "('w, 'a) step \<Rightarrow> (error \<Rightarrow> ('w, 'a) step) \<Rightarrow> ('w, 'a) step" where
  "tryCatch m h = (\<lambda>w. case m w of (Inl e, w') \<Rightarrow> h e w' | (Inr x, w') \<Rightarrow> (Inr x, w'))"

subsection \<open>Strings\<close>

definition dquote :: string where
  "dquote = [CHR 0x22]"

definition newline :: string where
  "newline = [CHR 0x0A]"

text \<open>The white space of \<^verbatim>\<open>trim\<close> and \<^verbatim>\<open>parseInt\<close> within ASCII.\<close>

definition isWhiteSpace :: "char \<Rightarrow> bool" where
  "isWhiteSpace c = (c \<in> set [CHR 0x20, CHR 0x09, CHR 0x0A, CHR 0x0B, CHR 0x0C, CHR 0x0D])"

definition trim :: "string \<Rightarrow> string" where
  "trim s = rev (dropWhile isWhiteSpace (rev (dropWhile isWhiteSpace s)))"

definition isDigit :: "char \<Rightarrow> bool" where
  "isDigit c = (48 \<le> (of_char c :: nat) \<and> (of_char c :: nat) \<le> 57)"

definition digitValue :: "char \<Rightarrow> int" where
  "digitValue c = int (of_char c) - 48"

definition digitsValue :: "string \<Rightarrow> int" where
  "digitsValue ds = foldl (\<lambda>acc c. 10 * acc + digitValue c) 0 ds"

text \<open>
  \<^verbatim>\<open>parseInt(s, 10)\<close>: leading white space is skipped, a sign is read, then the longest
  run of decimal digits; with no digit the result is \<^verbatim>\<open>NaN\<close>, here \<open>None\<close>. (JavaScript
  rounds an integer beyond \<open>2^53\<close> to a double; the script only compares the result with
  \<open>101\<close>, \<open>-4\<close>, \<open>-18\<close> and \<open>-35\<close>, and with another parsed height, where the
  rounding is not modelled.)
\<close>

definition parseInt :: "string \<Rightarrow> int option" where
  "parseInt s =
     (let t = dropWhile isWhiteSpace s;
          (neg, u) = (case t of
                        c # r \<Rightarrow> if c = CHR ''-'' then (True, r)
                                 else if c = CHR ''+'' then (False, r) else (False, t)
                      | [] \<Rightarrow> (False, t));
          ds = takeWhile isDigit u
      in if ds = [] then None
         else Some (if neg then - digitsValue ds else digitsValue ds))"

text \<open>The decimal digits of a number, as a template literal prints them.\<close>

fun showNat :: "nat \<Rightarrow> string" where
  "showNat n = (if n < 10 then [''0123456789'' ! n]
                else showNat (n div 10) @ [''0123456789'' ! (n mod 10)])"

declare showNat.simps [simp del]

subsection \<open>The helpers \<^verbatim>\<open>runCliCommand\<close> and \<^verbatim>\<open>getErrorCode\<close>\<close>

text \<open>\<^verbatim>\<open>err.stderr ?? err.stdout ?? err.message ?? 'Unknown error'\<close>\<close>

definition errorDetail :: "exec_error \<Rightarrow> string" where
  "errorDetail err =
     (case err_stderr err of Some s \<Rightarrow> s
      | None \<Rightarrow> (case err_stdout err of Some s \<Rightarrow> s
        | None \<Rightarrow> (case err_message err of Some s \<Rightarrow> s
          | None \<Rightarrow> ''Unknown error'')))"

definition commandFailed :: "string \<Rightarrow> exec_error \<Rightarrow> error" where
  "commandFailed command err =
     Error (''Command failed: '' @ command @ newline @ ''Error: '' @ errorDetail err)"

definition runCliCommand :: "'w system \<Rightarrow> string \<Rightarrow> ('w, string) step" where
  "runCliCommand sys command =
     (\<lambda>w. case execSync sys command w of
             (Inl err, w') \<Rightarrow> (Inl (commandFailed command err), w')
           | (Inr out, w') \<Rightarrow> (Inr (trim out), w'))"

text \<open>
  \<^verbatim>\<open>errorMessage.match(/error code: (-?\d+)/)\<close>: the leftmost place where the text
  \<^verbatim>\<open>error code: \<close> is followed by an optional minus sign and at least one digit; the
  group is the sign and the longest run of digits.
\<close>

fun stripPrefix :: "string \<Rightarrow> string \<Rightarrow> string option" where
  "stripPrefix [] s = Some s"
| "stripPrefix (p # ps) [] = None"
| "stripPrefix (p # ps) (c # cs) = (if p = c then stripPrefix ps cs else None)"

definition matchHere :: "string \<Rightarrow> string option" where
  "matchHere s =
     (case stripPrefix ''error code: '' s of
        None \<Rightarrow> None
      | Some r \<Rightarrow>
          (let (sign, u) = (case r of
                              c # r' \<Rightarrow> if c = CHR ''-'' then (''-'', r') else ([], r)
                            | [] \<Rightarrow> ([], r));
               ds = takeWhile isDigit u
           in if ds = [] then None else Some (sign @ ds)))"

fun matchErrorCode :: "string \<Rightarrow> string option" where
  "matchErrorCode [] = matchHere []"
| "matchErrorCode (c # cs) =
     (case matchHere (c # cs) of Some g \<Rightarrow> Some g | None \<Rightarrow> matchErrorCode cs)"

definition getErrorCode :: "string \<Rightarrow> int option" where
  "getErrorCode errorMessage =
     (case matchErrorCode errorMessage of None \<Rightarrow> None | Some g \<Rightarrow> parseInt g)"

subsection \<open>Step 1: the keys\<close>

type_synonym bytes = "8 word list"

text \<open>An \<^verbatim>\<open>ECPairInterface\<close>, as far as the script reads it.\<close>

record keyPair =
  privateKey :: bytes
  publicKey :: bytes

text \<open>A \<^verbatim>\<open>Payment\<close> of the script library, as far as the script reads it: both fields
  may be \<^verbatim>\<open>undefined\<close>.\<close>

record payment =
  pay_output :: "bytes option"
  pay_address :: "string option"

text \<open>
  The functions of \<^verbatim>\<open>bip39\<close>, \<^verbatim>\<open>bip32\<close>, \<^verbatim>\<open>ecpair\<close> and \<^verbatim>\<open>bitcoinjs-lib\<close> the script
  calls in steps 1 to 3, on the regtest network. They are not part of the repository
  and are arguments of the model; \<open>'n\<close> is the type of a BIP32 node. A call that may
  throw returns a sum.
\<close>

record 'n library =
  mnemonicToSeedSync :: "string \<Rightarrow> bytes"
  fromSeed :: "bytes \<Rightarrow> error + 'n"
  derivePath :: "'n \<Rightarrow> string \<Rightarrow> error + 'n"
  nodePrivateKey :: "'n \<Rightarrow> bytes option"
  fromPrivateKey :: "bytes option \<Rightarrow> error + keyPair"
  toWIF :: "keyPair \<Rightarrow> string"
  p2ms :: "nat \<Rightarrow> bytes list \<Rightarrow> error + payment"
  p2sh :: "payment \<Rightarrow> error + payment"

definition mnemonic :: string where
  "mnemonic = ''test test test test test test test test test test test junk''"

text \<open>The path \<^verbatim>\<open>m/44'/1'/0'/0/${i}\<close>.\<close>

definition derivationPath :: "nat \<Rightarrow> string" where
  "derivationPath i =
     ''m/44'' @ [CHR 0x27] @ ''/1'' @ [CHR 0x27] @ ''/0'' @ [CHR 0x27] @ ''/0/'' @ showNat i"

text \<open>The callback of \<^verbatim>\<open>Array.from\<close>: \<^verbatim>\<open>derived.privateKey!\<close> may be \<^verbatim>\<open>undefined\<close>, which
  is left to \<^verbatim>\<open>ECPair.fromPrivateKey\<close>.\<close>

definition deriveKeyPair :: "'n library \<Rightarrow> 'n \<Rightarrow> nat \<Rightarrow> error + keyPair" where
  "deriveKeyPair lib rootNode i =
     (case derivePath lib rootNode (derivationPath i) of
        Inl e \<Rightarrow> Inl e
      | Inr derived \<Rightarrow> fromPrivateKey lib (nodePrivateKey lib derived))"

text \<open>\<^verbatim>\<open>Array.from({ length: n }, (_, i) => f(i))\<close>: the callback runs on the indices in
  order, and the first call that throws ends the construction.\<close>

fun arrayFrom :: "(nat \<Rightarrow> error + 'a) \<Rightarrow> nat list \<Rightarrow> error + 'a list" where
  "arrayFrom f [] = Inr []"
| "arrayFrom f (i # rest) =
     (case f i of
        Inl e \<Rightarrow> Inl e
      | Inr x \<Rightarrow> (case arrayFrom f rest of Inl e \<Rightarrow> Inl e | Inr xs \<Rightarrow> Inr (x # xs)))"

definition deriveKeyPairs :: "'n library \<Rightarrow> string \<Rightarrow> nat \<Rightarrow> error + keyPair list" where
  "deriveKeyPairs lib phrase n =
     (case fromSeed lib (mnemonicToSeedSync lib phrase) of
        Inl e \<Rightarrow> Inl e
      | Inr rootNode \<Rightarrow> arrayFrom (deriveKeyPair lib rootNode) [0..<n])"

subsection \<open>Step 1 in the state of the process\<close>

text \<open>
  Lines 68 to 75 once more, without taking the key libraries for functions. Here a call
  of \<^verbatim>\<open>bip39\<close>, \<^verbatim>\<open>bip32\<close> or \<^verbatim>\<open>ecpair\<close> is a step in the state of the process, which
  the call may read and change and may throw in, so that what two runs have in common is
  a statement about the script and not a matter of typing. \<^verbatim>\<open>derived.privateKey\<close> reads
  a field of the node.
\<close>

record ('w, 'n) key_library =
  kl_mnemonicToSeedSync :: "string \<Rightarrow> ('w, bytes) step"
  kl_fromSeed :: "bytes \<Rightarrow> ('w, 'n) step"
  kl_derivePath :: "'n \<Rightarrow> string \<Rightarrow> ('w, 'n) step"
  kl_privateKey :: "'n \<Rightarrow> bytes option"
  kl_fromPrivateKey :: "bytes option \<Rightarrow> ('w, keyPair) step"

definition deriveKeyPairIn :: "('w, 'n) key_library \<Rightarrow> 'n \<Rightarrow> nat \<Rightarrow> ('w, keyPair) step" where
  "deriveKeyPairIn kl rootNode i =
     andThen (kl_derivePath kl rootNode (derivationPath i)) (\<lambda>derived.
       kl_fromPrivateKey kl (kl_privateKey kl derived))"

fun arrayFromIn :: "(nat \<Rightarrow> ('w, 'a) step) \<Rightarrow> nat list \<Rightarrow> ('w, 'a list) step" where
  "arrayFromIn f [] = return []"
| "arrayFromIn f (i # rest) =
     andThen (f i) (\<lambda>x. andThen (arrayFromIn f rest) (\<lambda>xs. return (x # xs)))"

definition deriveKeyPairsIn ::
  "('w, 'n) key_library \<Rightarrow> string \<Rightarrow> nat \<Rightarrow> ('w, keyPair list) step" where
  "deriveKeyPairsIn kl phrase n =
     andThen (kl_mnemonicToSeedSync kl phrase) (\<lambda>seed.
     andThen (kl_fromSeed kl seed) (\<lambda>rootNode.
       arrayFromIn (deriveKeyPairIn kl rootNode) [0..<n]))"

text \<open>The libraries of steps 1 to 3 taken for functions are the case of calls that
  neither read nor change the state.\<close>

definition stateless :: "'n library \<Rightarrow> ('w, 'n) key_library" where
  "stateless lib =
     \<lparr>kl_mnemonicToSeedSync = (\<lambda>phrase. return (mnemonicToSeedSync lib phrase)),
      kl_fromSeed = (\<lambda>seed w. (fromSeed lib seed, w)),
      kl_derivePath = (\<lambda>node path w. (derivePath lib node path, w)),
      kl_privateKey = nodePrivateKey lib,
      kl_fromPrivateKey = (\<lambda>key w. (fromPrivateKey lib key, w))\<rparr>"

text \<open>A step is deterministic when what it returns or throws is the same in every
  state; a key library is, when each of its calls is.\<close>

definition deterministic :: "('w, 'a) step \<Rightarrow> bool" where
  "deterministic m = (\<forall>w w'. fst (m w) = fst (m w'))"

definition deterministicLibrary :: "('w, 'n) key_library \<Rightarrow> bool" where
  "deterministicLibrary kl =
     ((\<forall>phrase. deterministic (kl_mnemonicToSeedSync kl phrase))
      \<and> (\<forall>seed. deterministic (kl_fromSeed kl seed))
      \<and> (\<forall>node path. deterministic (kl_derivePath kl node path))
      \<and> (\<forall>key. deterministic (kl_fromPrivateKey kl key)))"

subsection \<open>Step 2: the multisig address\<close>

text \<open>\<^verbatim>\<open>a.compare(b)\<close> on two buffers: the bytes are compared as unsigned numbers from
  the left, and a proper prefix comes first.\<close>

fun bufferCompare :: "bytes \<Rightarrow> bytes \<Rightarrow> int" where
  "bufferCompare [] [] = 0"
| "bufferCompare [] (y # ys) = - 1"
| "bufferCompare (x # xs) [] = 1"
| "bufferCompare (x # xs) (y # ys) =
     (if x < y then - 1 else if y < x then 1 else bufferCompare xs ys)"

text \<open>
  \<^verbatim>\<open>Array.prototype.sort\<close> with a comparison function. The language fixes the result
  for a consistent comparison: the stable sorted permutation. Insertion from the right,
  each element before the first one it does not exceed, computes it.
\<close>

fun insertSorted :: "('a \<Rightarrow> 'a \<Rightarrow> int) \<Rightarrow> 'a \<Rightarrow> 'a list \<Rightarrow> 'a list" where
  "insertSorted cmp x [] = [x]"
| "insertSorted cmp x (y # ys) =
     (if cmp x y \<le> 0 then x # y # ys else y # insertSorted cmp x ys)"

fun arraySort :: "('a \<Rightarrow> 'a \<Rightarrow> int) \<Rightarrow> 'a list \<Rightarrow> 'a list" where
  "arraySort cmp [] = []"
| "arraySort cmp (x # xs) = insertSorted cmp x (arraySort cmp xs)"

text \<open>Lines 77 to 79.\<close>

definition sortedPublicKeys :: "keyPair list \<Rightarrow> bytes list" where
  "sortedPublicKeys keyPairs = arraySort bufferCompare (map publicKey keyPairs)"

text \<open>Lines 83 to 89: the \<^verbatim>\<open>p2ms\<close> payment over the sorted keys, wrapped in \<^verbatim>\<open>p2sh\<close>. The
  result is the payment \<^verbatim>\<open>p2ms\<close> and the address \<^verbatim>\<open>p2sh.address!\<close>, which the type
  assertion does not keep from being \<^verbatim>\<open>undefined\<close>.\<close>

definition buildMultisig ::
  "'n library \<Rightarrow> nat \<Rightarrow> keyPair list \<Rightarrow> error + payment \<times> string option" where
  "buildMultisig lib m keyPairs =
     (case p2ms lib m (sortedPublicKeys keyPairs) of
        Inl e \<Rightarrow> Inl e
      | Inr pm \<Rightarrow> (case p2sh lib pm of
                     Inl e \<Rightarrow> Inl e
                   | Inr ps \<Rightarrow> Inr (pm, pay_address ps)))"

subsection \<open>Step 3: the saved keys\<close>

definition hexDigit :: "nat \<Rightarrow> char" where
  "hexDigit d = ''0123456789abcdef'' ! d"

text \<open>\<^verbatim>\<open>toString('hex')\<close>: two digits for each byte.\<close>

definition toHex :: "bytes \<Rightarrow> string" where
  "toHex bs = concat (map (\<lambda>b. [hexDigit (unat b div 16), hexDigit (unat b mod 16)]) bs)"

text \<open>The object written to \<^verbatim>\<open>multisig_keys.json\<close>. \<^verbatim>\<open>JSON.stringify\<close> leaves out a field
  that is \<^verbatim>\<open>undefined\<close>.\<close>

record artifact =
  wifs :: "string list"
  redeemScript :: string
  multisigAddress :: "string option"

text \<open>Lines 76 and 93 to 100. \<^verbatim>\<open>p2ms.output!.toString('hex')\<close> throws a \<^verbatim>\<open>TypeError\<close> on
  \<^verbatim>\<open>undefined\<close>.\<close>

definition keysArtifact ::
  "'n library \<Rightarrow> keyPair list \<Rightarrow> payment \<Rightarrow> string option \<Rightarrow> error + artifact" where
  "keysArtifact lib keyPairs pm multisigAddr =
     (case pay_output pm of
        None \<Rightarrow> Inl (Error ''Cannot read properties of undefined (reading 'toString')'')
      | Some script \<Rightarrow>
          Inr \<lparr>wifs = map (toWIF lib) keyPairs, redeemScript = toHex script,
               multisigAddress = multisigAddr\<rparr>)"

text \<open>Steps 1 to 3 of \<^verbatim>\<open>bootstrap\<close>, for a phrase, a number of keys and a threshold; the
  script runs them on \<open>mnemonic\<close>, \<open>TOTAL_KEYS\<close> and \<open>REQUIRED_SIGNATURES\<close>.\<close>

definition generateKeys :: "'n library \<Rightarrow> string \<Rightarrow> nat \<Rightarrow> nat \<Rightarrow> error + artifact" where
  "generateKeys lib phrase n m =
     (case deriveKeyPairs lib phrase n of
        Inl e \<Rightarrow> Inl e
      | Inr keyPairs \<Rightarrow>
          (case buildMultisig lib m keyPairs of
             Inl e \<Rightarrow> Inl e
           | Inr (pm, multisigAddr) \<Rightarrow> keysArtifact lib keyPairs pm multisigAddr))"

definition bootstrapKeys :: "'n library \<Rightarrow> error + artifact" where
  "bootstrapKeys lib = generateKeys lib mnemonic TOTAL_KEYS REQUIRED_SIGNATURES"

subsection \<open>Step 4: the wallets\<close>

text \<open>
  The body of the loop over \<^verbatim>\<open>[FAUCET_WALLET_NAME, MULTISIG_WALLET_NAME]\<close>. The answer
  of \<^verbatim>\<open>getwalletinfo\<close> is JSON; \<open>privateKeysEnabled\<close> stands for
  \<^verbatim>\<open>JSON.parse(...).private_keys_enabled\<close> and may throw as \<^verbatim>\<open>JSON.parse\<close> does.
\<close>

definition loadwalletCommand :: "config \<Rightarrow> string \<Rightarrow> string" where
  "loadwalletCommand cfg walletName =
     BITCOIN_CLI_BASE cfg @ '' loadwallet '' @ dquote @ walletName @ dquote"

definition getwalletinfoCommand :: "config \<Rightarrow> string \<Rightarrow> string" where
  "getwalletinfoCommand cfg walletName =
     BITCOIN_CLI_BASE cfg @ '' -rpcwallet='' @ walletName @ '' getwalletinfo''"

definition unloadwalletCommand :: "config \<Rightarrow> string \<Rightarrow> string" where
  "unloadwalletCommand cfg walletName =
     BITCOIN_CLI_BASE cfg @ '' unloadwallet '' @ dquote @ walletName @ dquote"

definition createwalletCommand :: "config \<Rightarrow> string \<Rightarrow> string \<Rightarrow> string" where
  "createwalletCommand cfg walletName disablePrivateKeys =
     BITCOIN_CLI_BASE cfg @ '' -named createwallet wallet_name='' @ dquote @ walletName @ dquote
       @ '' disable_private_keys='' @ disablePrivateKeys
       @ '' blank=false passphrase='' @ dquote @ dquote
       @ '' avoid_reuse=false descriptors=true''"

definition walletDirOf :: "config \<Rightarrow> string \<Rightarrow> string" where
  "walletDirOf cfg walletName =
     (if walletName = FAUCET_WALLET_NAME then FAUCET_WALLET_DIR cfg else WALLET_DIR cfg)"

definition removeIfExists :: "'w system \<Rightarrow> string \<Rightarrow> ('w, unit) step" where
  "removeIfExists sys dir =
     (\<lambda>w. if existsSync sys dir w then rmSync sys dir w else return () w)"

definition ensureDir :: "'w system \<Rightarrow> string \<Rightarrow> ('w, unit) step" where
  "ensureDir sys dir =
     (\<lambda>w. if \<not> existsSync sys dir w then mkdirSync sys dir w else return () w)"

text \<open>The \<^verbatim>\<open>try\<close> block.\<close>

definition loadWallet ::
  "'w system \<Rightarrow> (string \<Rightarrow> error + bool) \<Rightarrow> config \<Rightarrow> string \<Rightarrow> ('w, unit) step" where
  "loadWallet sys privateKeysEnabled cfg walletName =
     andThen (runCliCommand sys (loadwalletCommand cfg walletName)) (\<lambda>_.
       if walletName = MULTISIG_WALLET_NAME then
         andThen (runCliCommand sys (getwalletinfoCommand cfg walletName)) (\<lambda>info.
           case privateKeysEnabled info of
             Inl e \<Rightarrow> throw e
           | Inr enabled \<Rightarrow>
               if enabled then
                 andThen (runCliCommand sys (unloadwalletCommand cfg walletName)) (\<lambda>_.
                 andThen (removeIfExists sys (walletDirOf cfg walletName)) (\<lambda>_.
                 andThen (runCliCommand sys (createwalletCommand cfg walletName ''true'')) (\<lambda>_.
                   return ())))
               else return ())
       else return ())"

text \<open>The creation of a wallet in the \<^verbatim>\<open>catch\<close> block.\<close>

definition createWallet :: "'w system \<Rightarrow> config \<Rightarrow> string \<Rightarrow> ('w, unit) step" where
  "createWallet sys cfg walletName =
     (let disablePrivateKeys = (if walletName = MULTISIG_WALLET_NAME then ''true'' else ''false'');
          walletDir = walletDirOf cfg walletName
      in andThen (removeIfExists sys walletDir) (\<lambda>_.
         andThen (ensureDir sys (dirname cfg walletDir)) (\<lambda>_.
         andThen (runCliCommand sys (createwalletCommand cfg walletName disablePrivateKeys)) (\<lambda>_.
           return ()))))"

text \<open>The \<^verbatim>\<open>catch\<close> block.\<close>

definition onLoadError :: "'w system \<Rightarrow> config \<Rightarrow> string \<Rightarrow> error \<Rightarrow> ('w, unit) step" where
  "onLoadError sys cfg walletName loadErr =
     (let errorMessage = message loadErr;
          errorCode = getErrorCode errorMessage
      in if errorCode = Some (- 4) \<or> errorCode = Some (- 18) then createWallet sys cfg walletName
         else if errorCode = Some (- 35) then return ()
         else throw loadErr)"

definition setupWallet ::
  "'w system \<Rightarrow> (string \<Rightarrow> error + bool) \<Rightarrow> config \<Rightarrow> string \<Rightarrow> ('w, unit) step" where
  "setupWallet sys privateKeysEnabled cfg walletName =
     tryCatch (loadWallet sys privateKeysEnabled cfg walletName)
              (onLoadError sys cfg walletName)"

definition setupWallets ::
  "'w system \<Rightarrow> (string \<Rightarrow> error + bool) \<Rightarrow> config \<Rightarrow> ('w, unit) step" where
  "setupWallets sys privateKeysEnabled cfg =
     andThen (setupWallet sys privateKeysEnabled cfg FAUCET_WALLET_NAME) (\<lambda>_.
              setupWallet sys privateKeysEnabled cfg MULTISIG_WALLET_NAME)"

subsection \<open>Step 6: coin maturation\<close>

definition getnewaddressCommand :: "config \<Rightarrow> string" where
  "getnewaddressCommand cfg =
     BITCOIN_CLI_BASE cfg @ '' -rpcwallet='' @ FAUCET_WALLET_NAME @ '' getnewaddress ''
       @ dquote @ dquote @ '' legacy''"

definition getblockcountCommand :: "config \<Rightarrow> string" where
  "getblockcountCommand cfg = BITCOIN_CLI_BASE cfg @ '' getblockcount''"

definition generatetoaddressCommand :: "config \<Rightarrow> nat \<Rightarrow> string \<Rightarrow> string" where
  "generatetoaddressCommand cfg n address =
     BITCOIN_CLI_BASE cfg @ '' generatetoaddress '' @ showNat n @ '' '' @ address"

text \<open>\<^verbatim>\<open>blockCount < 101\<close> on a number that may be \<^verbatim>\<open>NaN\<close>: false for \<^verbatim>\<open>NaN\<close>.\<close>

definition lessThan101 :: "int option \<Rightarrow> bool" where
  "lessThan101 blockCount = (case blockCount of None \<Rightarrow> False | Some h \<Rightarrow> h < 101)"

text \<open>Lines 190 to 197: a fresh faucet address, the height of the chain, and 101
  blocks mined to the address when the height is below 101. The step returns the
  faucet address.\<close>

definition matureCoins :: "'w system \<Rightarrow> config \<Rightarrow> ('w, string) step" where
  "matureCoins sys cfg =
     andThen (runCliCommand sys (getnewaddressCommand cfg)) (\<lambda>faucetAddress.
     andThen (runCliCommand sys (getblockcountCommand cfg)) (\<lambda>out.
       let blockCount = parseInt out
       in if lessThan101 blockCount then
            andThen (runCliCommand sys (generatetoaddressCommand cfg 101 faucetAddress)) (\<lambda>_.
              return faucetAddress)
          else return faucetAddress))"

subsection \<open>JavaScript numbers\<close>

text \<open>
  A JavaScript number is an IEEE 754 double. A finite double is a rational number, and
  each arithmetic operation returns the exact result rounded to the nearest double,
  ties to the even significand; a decimal literal and a decimal number read by
  \<^verbatim>\<open>JSON.parse\<close> or \<^verbatim>\<open>parseFloat\<close> denote the double nearest to them. \<open>double\<close> is this
  rounding to 53 significant bits. The range of the exponent is not modelled: the
  amounts of the script lie between \<open>10^-8\<close> and \<open>21 * 10^6\<close>, far from overflow
  and from the subnormal numbers.
\<close>

fun bitlen :: "nat \<Rightarrow> nat" where
  "bitlen n = (if n = 0 then 0 else Suc (bitlen (n div 2)))"

declare bitlen.simps [simp del]

text \<open>The exponent of the leading bit of \<open>x > 0\<close>: \<open>2 ^ ilog2 x \<le> x < 2 ^ (ilog2 x + 1)\<close>.\<close>

definition ilog2 :: "rat \<Rightarrow> int" where
  "ilog2 x = (if 1 \<le> x then int (bitlen (nat \<lfloor>x\<rfloor>)) - 1
              else - int (bitlen (nat (\<lceil>1 / x\<rceil> - 1))))"

definition roundHalfEven :: "rat \<Rightarrow> int" where
  "roundHalfEven m =
     (let f = \<lfloor>m\<rfloor>; d = m - of_int f
      in if d < 1 / 2 then f else if 1 / 2 < d then f + 1 else if even f then f else f + 1)"

definition double :: "rat \<Rightarrow> rat" where
  "double x =
     (if x = 0 then 0
      else let e = ilog2 \<bar>x\<bar> - 52
           in sgn x * of_int (roundHalfEven (\<bar>x\<bar> / 2 powi e)) * 2 powi e)"

definition jsAdd :: "rat \<Rightarrow> rat \<Rightarrow> rat" where
  "jsAdd a b = double (a + b)"

definition jsSub :: "rat \<Rightarrow> rat \<Rightarrow> rat" where
  "jsSub a b = double (a - b)"

definition jsMul :: "rat \<Rightarrow> rat \<Rightarrow> rat" where
  "jsMul a b = double (a * b)"

definition jsDiv :: "rat \<Rightarrow> rat \<Rightarrow> rat" where
  "jsDiv a b = double (a / b)"

text \<open>An amount of \<open>n\<close> satoshis as the node prints it (\<open>n / 10^8\<close> with eight
  decimals) and as \<^verbatim>\<open>JSON.parse\<close> reads it.\<close>

definition btc :: "int \<Rightarrow> rat" where
  "btc n = double (of_int n / 100000000)"

definition FUNDING_AMOUNT_BTC :: rat where
  "FUNDING_AMOUNT_BTC = double (1 / 100)"

definition FEE_RATE_SAT_PER_VBYTE :: rat where
  "FEE_RATE_SAT_PER_VBYTE = 2"

subsection \<open>Step 7: the funding transaction\<close>

text \<open>An entry of \<^verbatim>\<open>listunspent\<close> of the faucet wallet, as the script types it.\<close>

record utxo =
  amount :: rat
  spendable :: bool
  txid :: string
  vout :: nat

text \<open>\<^verbatim>\<open>(u) => u.amount >= FUNDING_AMOUNT_BTC + 0.001 && u.spendable\<close>\<close>

definition suitable :: "utxo \<Rightarrow> bool" where
  "suitable u = (jsAdd FUNDING_AMOUNT_BTC (double (1 / 1000)) \<le> amount u \<and> spendable u)"

definition txSizeEstimate :: rat where
  "txSizeEstimate = 250"

definition feeEstimate :: rat where
  "feeEstimate = jsDiv (jsMul FEE_RATE_SAT_PER_VBYTE txSizeEstimate) 100000000"

definition changeAmount :: "utxo \<Rightarrow> rat" where
  "changeAmount u = jsSub (jsSub (amount u) FUNDING_AMOUNT_BTC) feeEstimate"

text \<open>\<^verbatim>\<open>utxos.find(...)\<close> and the \<^verbatim>\<open>throw\<close> that follows it.\<close>

definition selectUtxo :: "utxo list \<Rightarrow> error + utxo" where
  "selectUtxo utxos =
     (case List.find suitable utxos of
        None \<Rightarrow> Inl (Error ''No suitable UTXO found in faucet wallet.'')
      | Some u \<Rightarrow> Inr u)"

text \<open>Lines 212 to 218: the selected UTXO and the change it leaves.\<close>

definition planFunding :: "utxo list \<Rightarrow> error + utxo \<times> rat" where
  "planFunding utxos =
     (case selectUtxo utxos of
        Inl e \<Rightarrow> Inl e
      | Inr u \<Rightarrow>
          if changeAmount u < 0 then Inl (Error ''Insufficient funds for transaction and fee'')
          else Inr (u, changeAmount u))"

text \<open>
  The selection as the specification words it: the first UTXO whose amount is at
  least the funding amount plus the fee, and which is spendable. It is stated here to
  be compared with \<open>suitable\<close>, and is no part of the program.
\<close>

definition suitableAsSpecified :: "utxo \<Rightarrow> bool" where
  "suitableAsSpecified u = (jsAdd FUNDING_AMOUNT_BTC feeEstimate \<le> amount u \<and> spendable u)"

subsection \<open>Steps 9 and 10: the spend\<close>

text \<open>An entry of \<^verbatim>\<open>listunspent\<close> of the watch-only wallet.\<close>

record multisig_utxo =
  mu_amount :: rat
  mu_address :: string
  mu_txid :: string
  mu_vout :: nat

text \<open>Lines 284 to 286: \<^verbatim>\<open>Math.abs(u.amount - FUNDING_AMOUNT_BTC) < 0.0001 &&
  u.address === multisigAddress\<close> on some entry.\<close>

definition received :: "multisig_utxo list \<Rightarrow> string option \<Rightarrow> bool" where
  "received multisigUtxos multisigAddr =
     list_ex (\<lambda>u. \<bar>jsSub (mu_amount u) FUNDING_AMOUNT_BTC\<bar> < double (1 / 10000)
                  \<and> Some (mu_address u) = multisigAddr) multisigUtxos"

text \<open>\<^verbatim>\<open>multisigUtxos.find((u) => u.address === multisigAddress)\<close> and the
  \<^verbatim>\<open>throw\<close> that follows it.\<close>

definition findSpendUtxo :: "multisig_utxo list \<Rightarrow> string option \<Rightarrow> error + multisig_utxo" where
  "findSpendUtxo multisigUtxos multisigAddr =
     (case List.find (\<lambda>u. Some (mu_address u) = multisigAddr) multisigUtxos of
        None \<Rightarrow> Inl (Error ''No multisig UTXO found to spend.'')
      | Some u \<Rightarrow> Inr u)"

text \<open>\<^verbatim>\<open>Math.floor((spendUtxo.amount - 0.0001) * 1e8)\<close>\<close>

definition spendValue :: "rat \<Rightarrow> int" where
  "spendValue a = \<lfloor>jsMul (jsSub a (double (1 / 10000))) 100000000\<rfloor>"

text \<open>
  The transaction builder \<^verbatim>\<open>bitcoin.Psbt\<close> is library code: \<open>'p\<close> is the type of its
  objects, and \<^verbatim>\<open>addInput\<close> and \<^verbatim>\<open>addOutput\<close>, which check their argument and may
  throw (a transaction id that is not 32 bytes, a previous transaction that does not
  parse, an address of another network, a value that is negative or no integer), are
  arguments of the model. The argument of \<^verbatim>\<open>addInput\<close> holds \<^verbatim>\<open>p2ms.output!\<close>, which may
  be \<^verbatim>\<open>undefined\<close>, and the text of the previous transaction, which \<^verbatim>\<open>Buffer.from\<close>
  decodes.
\<close>

record input_data =
  id_hash :: string
  id_index :: nat
  id_redeemScript :: "bytes option"
  id_nonWitnessUtxo :: string

record output_data =
  od_address :: string
  od_value :: int

record 'p psbt_library =
  newPsbt :: 'p
  addInput :: "'p \<Rightarrow> input_data \<Rightarrow> error + 'p"
  addOutput :: "'p \<Rightarrow> output_data \<Rightarrow> error + 'p"

text \<open>Lines 301 to 313: one \<^verbatim>\<open>addInput\<close> and then one \<^verbatim>\<open>addOutput\<close> on a new
  transaction; the first that throws ends the step.\<close>

definition buildSpend ::
  "'p psbt_library \<Rightarrow> multisig_utxo \<Rightarrow> bytes option \<Rightarrow> string \<Rightarrow> string \<Rightarrow> error + 'p" where
  "buildSpend plib spendUtxo script rawPrevTx destination =
     (case addInput plib (newPsbt plib)
             \<lparr>id_hash = mu_txid spendUtxo, id_index = mu_vout spendUtxo,
              id_redeemScript = script, id_nonWitnessUtxo = rawPrevTx\<rparr> of
        Inl e \<Rightarrow> Inl e
      | Inr p \<Rightarrow>
          addOutput plib p
            \<lparr>od_address = destination, od_value = spendValue (mu_amount spendUtxo)\<rparr>)"

text \<open>Lines 287 to 313: the check that the funding is visible, the choice of the output
  to spend, and the transaction. \<open>script\<close> is \<^verbatim>\<open>p2ms.output\<close>; \<open>rawPrevTx\<close> and
  \<open>destination\<close> are the answers of \<^verbatim>\<open>getrawtransaction\<close> and \<^verbatim>\<open>getnewaddress\<close>.\<close>

definition prepareSpend ::
  "'p psbt_library \<Rightarrow> multisig_utxo list \<Rightarrow> string option \<Rightarrow> bytes option \<Rightarrow> string \<Rightarrow> string
     \<Rightarrow> error + 'p" where
  "prepareSpend plib multisigUtxos multisigAddr script rawPrevTx destination =
     (if \<not> received multisigUtxos multisigAddr
      then Inl (Error ''Funding transaction not visible in multisig wallet after rescan.'')
      else case findSpendUtxo multisigUtxos multisigAddr of
             Inl e \<Rightarrow> Inl e
           | Inr spendUtxo \<Rightarrow> buildSpend plib spendUtxo script rawPrevTx destination)"

text \<open>
  Modelled from the spec: the partially signed transaction whose finalization the
  specification describes. It "accumulates one input referencing a prior UTXO plus the
  RedeemScript, one or more outputs, and a growing set of signatures"; the redeem
  script is kept as what it encodes, the threshold and the keys in their order.
\<close>

record redeem_script =
  rs_m :: nat
  rs_pubkeys :: "bytes list"

record psbt_input =
  in_hash :: string
  in_index :: nat
  in_redeemScript :: redeem_script
  in_nonWitnessUtxo :: string
  in_partialSig :: "(bytes \<times> bytes) list"

record psbt_output =
  out_address :: string
  out_value :: int

record psbt =
  psbt_inputs :: "psbt_input list"
  psbt_outputs :: "psbt_output list"

text \<open>The helper \<^verbatim>\<open>toSigner\<close>: the public key of the key pair and its signing function.
  \<open>ecSign\<close> stands for \<^verbatim>\<open>keyPair.sign\<close> of the key library.\<close>

record signer =
  signer_publicKey :: bytes
  signer_sign :: "bytes \<Rightarrow> bytes"

definition toSigner :: "(keyPair \<Rightarrow> bytes \<Rightarrow> bytes) \<Rightarrow> keyPair \<Rightarrow> signer" where
  "toSigner ecSign keyPair =
     \<lparr>signer_publicKey = publicKey keyPair, signer_sign = (\<lambda>hash. ecSign keyPair hash)\<rparr>"

text \<open>
  Modelled from the spec: signing attaches to the first input the signature of the
  signer on the hash of the transaction, under the signer's public key.
\<close>

definition signInput :: "bytes \<Rightarrow> signer \<Rightarrow> psbt \<Rightarrow> psbt" where
  "signInput sighash sg tx =
     (case psbt_inputs tx of
        [] \<Rightarrow> tx
      | inp # rest \<Rightarrow>
          tx\<lparr>psbt_inputs :=
               inp\<lparr>in_partialSig :=
                     in_partialSig inp @ [(signer_publicKey sg, signer_sign sg sighash)]\<rparr>
               # rest\<rparr>)"

text \<open>Lines 316 to 318: \<^verbatim>\<open>for (let i = 0; i < REQUIRED_SIGNATURES; i++)
  psbt.signInput(0, toSigner(keyPairs[i]))\<close>. With fewer key pairs than signatures
  \<^verbatim>\<open>keyPairs[i]\<close> is \<^verbatim>\<open>undefined\<close> and \<^verbatim>\<open>toSigner\<close> throws.\<close>

definition signWithFirstKeys ::
  "(keyPair \<Rightarrow> bytes \<Rightarrow> bytes) \<Rightarrow> bytes \<Rightarrow> keyPair list \<Rightarrow> psbt \<Rightarrow> error + psbt" where
  "signWithFirstKeys ecSign sighash keyPairs tx =
     (if length keyPairs < REQUIRED_SIGNATURES
      then Inl (Error ''Cannot read properties of undefined (reading 'publicKey')'')
      else Inr (foldl (\<lambda>t kp. signInput sighash (toSigner ecSign kp) t) tx
                  (take REQUIRED_SIGNATURES keyPairs)))"

text \<open>
  Modelled from the spec: finalization. A transaction "becomes complete only once at
  least M valid signatures, corresponding to distinct keys among the RedeemScript's N,
  are attached", and "finalizing with fewer than M valid signatures must fail with an
  IncompleteSignatureSet error". \<open>valid pk sg\<close> says that \<open>sg\<close> is a signature of the
  hash of this transaction under the key \<open>pk\<close>. The keys of the redeem script that have signed
  validly are taken in the order of the script, each once; the first M of their
  signatures and the redeem script make the unlocking data of the input.
\<close>

datatype psbt_error = IncompleteSignatureSet

text \<open>Modelled from the spec: the first valid signature attached under the key \<open>pk\<close>,
  if there is one.\<close>

definition signatureOf :: "(bytes \<Rightarrow> bytes \<Rightarrow> bool) \<Rightarrow> (bytes \<times> bytes) list \<Rightarrow> bytes \<Rightarrow> bytes option" where
  "signatureOf valid sigs pk =
     map_option snd (List.find (\<lambda>(k, sg). k = pk \<and> valid pk sg) sigs)"

text \<open>Modelled from the spec: the "distinct keys among the RedeemScript's N" under which
  a valid signature is attached.\<close>

definition validSigners :: "(bytes \<Rightarrow> bytes \<Rightarrow> bool) \<Rightarrow> psbt_input \<Rightarrow> bytes list" where
  "validSigners valid inp =
     filter (\<lambda>pk. signatureOf valid (in_partialSig inp) pk \<noteq> None)
            (remdups (rs_pubkeys (in_redeemScript inp)))"

text \<open>Modelled from the spec: the "directly broadcastable transaction", whose inputs
  carry the signatures and the redeem script in place of the partial signatures.\<close>

record final_input =
  fin_hash :: string
  fin_index :: nat
  fin_signatures :: "bytes list"
  fin_redeemScript :: redeem_script

record transaction =
  tx_inputs :: "final_input list"
  tx_outputs :: "psbt_output list"

text \<open>Modelled from the spec: the finalization of one input, which fails with fewer
  valid signers than the threshold.\<close>

definition finalizeInput :: "(bytes \<Rightarrow> bytes \<Rightarrow> bool) \<Rightarrow> psbt_input \<Rightarrow> psbt_error + final_input" where
  "finalizeInput valid inp =
     (let signers = validSigners valid inp; m = rs_m (in_redeemScript inp)
      in if length signers < m then Inl IncompleteSignatureSet
         else Inr \<lparr>fin_hash = in_hash inp, fin_index = in_index inp,
                   fin_signatures =
                     map (\<lambda>pk. the (signatureOf valid (in_partialSig inp) pk)) (take m signers),
                   fin_redeemScript = in_redeemScript inp\<rparr>)"

text \<open>Modelled from the spec: \<^verbatim>\<open>finalizeAllInputs\<close> finalizes the inputs in order and
  fails with the first that fails.\<close>

fun finalizeInputs :: "(bytes \<Rightarrow> bytes \<Rightarrow> bool) \<Rightarrow> psbt_input list \<Rightarrow> psbt_error + final_input list" where
  "finalizeInputs valid [] = Inr []"
| "finalizeInputs valid (inp # rest) =
     (case finalizeInput valid inp of
        Inl e \<Rightarrow> Inl e
      | Inr f \<Rightarrow> (case finalizeInputs valid rest of Inl e \<Rightarrow> Inl e | Inr fs \<Rightarrow> Inr (f # fs)))"

definition finalizeAllInputs :: "(bytes \<Rightarrow> bytes \<Rightarrow> bool) \<Rightarrow> psbt \<Rightarrow> psbt_error + transaction" where
  "finalizeAllInputs valid tx =
     (case finalizeInputs valid (psbt_inputs tx) of
        Inl e \<Rightarrow> Inl e
      | Inr fs \<Rightarrow> Inr \<lparr>tx_inputs = fs, tx_outputs = psbt_outputs tx\<rparr>)"

subsection \<open>Worlds and libraries to run the steps on examples\<close>

text \<open>
  A world that keeps a record of what the script does to it: the answers the commands
  will get, in order; the commands run so far, in order; the directories that exist.
\<close>

record world =
  answers :: "(exec_error + string) list"
  issued :: "string list"
  directories :: "string list"

definition recorded :: "world system" where
  "recorded =
     \<lparr>execSync = (\<lambda>command w. case answers w of
                      [] \<Rightarrow> (Inl \<lparr>err_stderr = None, err_stdout = None, err_message = None\<rparr>,
                             w\<lparr>issued := issued w @ [command]\<rparr>)
                    | r # rs \<Rightarrow> (r, w\<lparr>answers := rs, issued := issued w @ [command]\<rparr>)),
      existsSync = (\<lambda>dir w. dir \<in> set (directories w)),
      rmSync = (\<lambda>dir w. (Inr (), w\<lparr>directories := removeAll dir (directories w)\<rparr>)),
      mkdirSync = (\<lambda>dir w. (Inr (), w\<lparr>directories := directories w @ [dir]\<rparr>))\<rparr>"

text \<open>
  A regtest node, as far as step 6 talks to it, reached by the default command line.
  The world is the height of its chain: \<^verbatim>\<open>getblockcount\<close> prints the height,
  \<^verbatim>\<open>generatetoaddress n address\<close> adds \<open>n\<close> blocks to the chain, \<^verbatim>\<open>getnewaddress\<close>
  of the faucet wallet prints an address, and every answer ends with a line feed. The
  node knows no other command.
\<close>

definition regtestNode :: "nat system" where
  "regtestNode =
     \<lparr>execSync = (\<lambda>command height.
        if command = ''bitcoin-cli -regtest getblockcount''
          then (Inr (showNat height @ [CHR 0x0A]), height)
        else if command = ''bitcoin-cli -regtest -rpcwallet=sky-wallet getnewaddress ''
                            @ [CHR 0x22, CHR 0x22] @ '' legacy''
          then (Inr (''mxFaucetAddress'' @ [CHR 0x0A]), height)
        else case stripPrefix ''bitcoin-cli -regtest generatetoaddress '' command of
               Some rest \<Rightarrow>
                 (case parseInt rest of
                    Some n \<Rightarrow> (Inr (''[]'' @ [CHR 0x0A]), height + nat n)
                  | None \<Rightarrow> (Inl \<lparr>err_stderr = Some ''error code: -1'', err_stdout = Some [],
                                   err_message = Some ''Command failed''\<rparr>, height))
             | None \<Rightarrow> (Inl \<lparr>err_stderr = Some ''error code: -32601'', err_stdout = Some [],
                              err_message = Some ''Command failed''\<rparr>, height)),
      existsSync = (\<lambda>dir height. False),
      rmSync = (\<lambda>dir height. (Inr (), height)),
      mkdirSync = (\<lambda>dir height. (Inr (), height))\<rparr>"

definition exampleConfig :: config where
  "exampleConfig =
     \<lparr>env_BITCOIN_CLI = None,
      WALLET_DIR = ''/root/.bitcoin/regtest/wallets/test_multisig_wallet'',
      FAUCET_WALLET_DIR = ''/root/.bitcoin/regtest/wallets/sky-wallet'',
      dirname = (\<lambda>p. ''/root/.bitcoin/regtest/wallets'')\<rparr>"

text \<open>Four failures of \<^verbatim>\<open>loadwallet\<close>, as the node reports them on the standard error
  stream: the wallet is missing, its directory holds no wallet, it is loaded already, and
  the node is still starting.\<close>

definition walletMissing :: exec_error where
  "walletMissing =
     \<lparr>err_stderr = Some (''error code: -18'' @ newline @ ''error message:'' @ newline
                          @ ''Wallet file verification failed. Path does not exist.''),
      err_stdout = Some [],
      err_message = Some ''Command failed''\<rparr>"

definition walletPathInvalid :: exec_error where
  "walletPathInvalid =
     \<lparr>err_stderr = Some (''error code: -4'' @ newline @ ''error message:'' @ newline
                          @ ''Wallet file verification failed.''),
      err_stdout = Some [],
      err_message = Some ''Command failed''\<rparr>"

definition walletLoaded :: exec_error where
  "walletLoaded =
     \<lparr>err_stderr = Some (''error code: -35'' @ newline @ ''error message:'' @ newline
                          @ ''Wallet is already loaded.''),
      err_stdout = Some [],
      err_message = Some ''Command failed''\<rparr>"

definition nodeWarmingUp :: exec_error where
  "nodeWarmingUp =
     \<lparr>err_stderr = Some (''error code: -28'' @ newline @ ''error message:'' @ newline
                          @ ''Loading wallet...''),
      err_stdout = Some [],
      err_message = Some ''Command failed''\<rparr>"

text \<open>
  A stand-in for the libraries, to run steps 1 to 3 on examples. It is no cryptography:
  a node is the bytes of its path, a public key is the private key with every byte
  negated, the redeem script has the layout of a multisig script (the threshold, the
  keys, their number, \<^verbatim>\<open>OP_CHECKMULTISIG\<close>) and the address spells the script out. It
  accepts every threshold.
\<close>

definition exampleLibrary :: "bytes library" where
  "exampleLibrary =
     \<lparr>mnemonicToSeedSync = (\<lambda>phrase. map of_char phrase),
      fromSeed = (\<lambda>seed. Inr (take 4 seed)),
      derivePath = (\<lambda>node path. Inr (drop 13 (map of_char path))),
      nodePrivateKey = (\<lambda>node. Some node),
      fromPrivateKey = (\<lambda>key. case key of
                          None \<Rightarrow> Inl (Error ''Expected Buffer'')
                        | Some k \<Rightarrow> Inr \<lparr>privateKey = k, publicKey = map uminus k\<rparr>),
      toWIF = (\<lambda>kp. ''c'' @ toHex (privateKey kp)),
      p2ms = (\<lambda>m keys. Inr \<lparr>pay_output = Some ([80 + of_nat m]
                                @ concat (map (\<lambda>k. of_nat (length k) # k) keys)
                                @ [80 + of_nat (length keys), 174]),
                             pay_address = None\<rparr>),
      p2sh = (\<lambda>redeem. Inr \<lparr>pay_output = None,
                            pay_address = map_option (\<lambda>script. ''2'' @ toHex script)
                                            (pay_output redeem)\<rparr>)\<rparr>"

text \<open>
  A stand-in for the key libraries in the state of the process, which counts the calls.
  It is no cryptography either: the seed is the bytes of the phrase, the root node is
  the sum of these bytes, a derived node is the node followed by the bytes of the path,
  and its private key is the node itself.
\<close>

definition exampleKeys :: "(nat, bytes) key_library" where
  "exampleKeys =
     \<lparr>kl_mnemonicToSeedSync = (\<lambda>phrase calls. (Inr (map of_char phrase), Suc calls)),
      kl_fromSeed = (\<lambda>seed calls. (Inr [sum_list seed], Suc calls)),
      kl_derivePath = (\<lambda>node path calls. (Inr (node @ map of_char path), Suc calls)),
      kl_privateKey = (\<lambda>node. Some node),
      kl_fromPrivateKey = (\<lambda>key calls. case key of
                             None \<Rightarrow> (Inl (Error ''Expected Buffer''), Suc calls)
                           | Some k \<Rightarrow> (Inr \<lparr>privateKey = k, publicKey = map uminus k\<rparr>,
                                       Suc calls))\<rparr>"

text \<open>A key library that is not deterministic: it makes the key pair from the state of
  the process, as \<^verbatim>\<open>ECPair.makeRandom\<close> does from the entropy of the system.\<close>

definition randomKeys :: "(nat, bytes) key_library" where
  "randomKeys =
     exampleKeys\<lparr>kl_fromPrivateKey :=
       (\<lambda>key entropy. (Inr \<lparr>privateKey = [of_nat entropy], publicKey = [- of_nat entropy]\<rparr>,
                       Suc entropy))\<rparr>"

definition keyA :: keyPair where
  "keyA = \<lparr>privateKey = [1], publicKey = [3, 170]\<rparr>"

definition keyB :: keyPair where
  "keyB = \<lparr>privateKey = [2], publicKey = [2, 187]\<rparr>"

definition keyC :: keyPair where
  "keyC = \<lparr>privateKey = [3], publicKey = [3, 17]\<rparr>"

text \<open>A stand-in for signing: the signature of a key pair on a hash is its public key
  followed by the hash, and that is the one valid signature under the key; the hash of
  the example transaction is the byte 1.\<close>

definition exampleSign :: "keyPair \<Rightarrow> bytes \<Rightarrow> bytes" where
  "exampleSign kp hash = publicKey kp @ hash"

definition exampleValid :: "bytes \<Rightarrow> bytes \<Rightarrow> bool" where
  "exampleValid pk sg = (sg = pk @ [1])"

text \<open>The spend of an output of 0.01 BTC under the 2-of-3 script of the three keys.\<close>

definition exampleSpend :: psbt where
  "exampleSpend =
     \<lparr>psbt_inputs = [\<lparr>in_hash = ''ff'', in_index = 0,
                       in_redeemScript = \<lparr>rs_m = 2, rs_pubkeys = [[2, 187], [3, 17], [3, 170]]\<rparr>,
                       in_nonWitnessUtxo = ''0200'', in_partialSig = []\<rparr>],
      psbt_outputs = [\<lparr>out_address = ''mq'', out_value = 990000\<rparr>]\<rparr>"

text \<open>Three entries of \<^verbatim>\<open>listunspent\<close>: 0.0105 BTC, a coinbase output of 50 BTC, and
  25 BTC.\<close>

definition smallUtxo :: utxo where
  "smallUtxo = \<lparr>amount = btc 1050000, spendable = True, txid = ''aa'', vout = 0\<rparr>"

definition coinbaseUtxo :: utxo where
  "coinbaseUtxo = \<lparr>amount = btc 5000000000, spendable = True, txid = ''bb'', vout = 0\<rparr>"

definition halvedUtxo :: utxo where
  "halvedUtxo = \<lparr>amount = btc 2500000000, spendable = True, txid = ''cc'', vout = 1\<rparr>"

section \<open>Properties\<close>

subsection \<open>Key derivation\<close>

lemma arrayFrom_Cons_Inr:
  "arrayFrom f (x # xs) = Inr ys \<longleftrightarrow>
     (\<exists>y ys'. f x = Inr y \<and> arrayFrom f xs = Inr ys' \<and> ys = y # ys')"
proof (cases "f x")
  case (Inl e)
  then show ?thesis by simp
next
  case (Inr y)
  then show ?thesis by (cases "arrayFrom f xs") auto
qed

lemma arrayFrom_Inr:
  "arrayFrom f xs = Inr ys \<Longrightarrow> length ys = length xs \<and> (\<forall>i<length xs. f (xs ! i) = Inr (ys ! i))"
proof (induction xs arbitrary: ys)
  case Nil
  then show ?case by simp
next
  case (Cons x xs)
  from Cons.prems obtain y ys' where y: "f x = Inr y" and ys': "arrayFrom f xs = Inr ys'"
    and ys: "ys = y # ys'"
    unfolding arrayFrom_Cons_Inr by blast
  from Cons.IH [OF ys'] have len: "length ys' = length xs"
    and nth: "\<forall>i<length xs. f (xs ! i) = Inr (ys' ! i)" by simp_all
  have "f ((x # xs) ! i) = Inr (ys ! i)" if "i < length (x # xs)" for i
    using that y nth ys by (cases i) simp_all
  moreover have "length ys = length (x # xs)" using len ys by simp
  ultimately show ?case by blast
qed

lemma deriveKeyPairs_Inr:
  "deriveKeyPairs lib phrase n = Inr keyPairs \<longleftrightarrow>
     (\<exists>rootNode. fromSeed lib (mnemonicToSeedSync lib phrase) = Inr rootNode
        \<and> arrayFrom (deriveKeyPair lib rootNode) [0..<n] = Inr keyPairs)"
  by (cases "fromSeed lib (mnemonicToSeedSync lib phrase)") (simp_all add: deriveKeyPairs_def)

lemma deriveKeyPairs_example:
  "deriveKeyPairs exampleLibrary mnemonic TOTAL_KEYS =
     Inr [\<lparr>privateKey = [47, 48], publicKey = [209, 208]\<rparr>,
          \<lparr>privateKey = [47, 49], publicKey = [209, 207]\<rparr>,
          \<lparr>privateKey = [47, 50], publicKey = [209, 206]\<rparr>]"
  by (simp add: deriveKeyPairs_def exampleLibrary_def mnemonic_def TOTAL_KEYS_def upt_rec
      deriveKeyPair_def derivationPath_def showNat.simps)

lemma fst_andThen:
  "fst (andThen m f w) = (case fst (m w) of Inl e \<Rightarrow> Inl e | Inr x \<Rightarrow> fst (f x (snd (m w))))"
proof -
  obtain r w' where r: "m w = (r, w')" by (cases "m w")
  show ?thesis by (cases r) (simp_all add: andThen_def r)
qed

lemma deterministic_andThen:
  assumes "deterministic m" and "\<And>x. deterministic (f x)"
  shows "deterministic (andThen m f)"
proof -
  have "fst (andThen m f w) = fst (andThen m f w')" for w w'
  proof -
    from assms(1) have m: "fst (m w) = fst (m w')" by (simp add: deterministic_def)
    show ?thesis
    proof (cases "fst (m w')")
      case (Inl e)
      with m show ?thesis by (simp add: fst_andThen)
    next
      case (Inr x)
      from assms(2) [of x] have "fst (f x (snd (m w))) = fst (f x (snd (m w')))"
        by (simp add: deterministic_def)
      with m Inr show ?thesis by (simp add: fst_andThen)
    qed
  qed
  then show ?thesis by (simp add: deterministic_def)
qed

lemma deterministic_return: "deterministic (return x)"
  by (simp add: deterministic_def return_def)

lemma deterministic_arrayFromIn:
  assumes "\<And>i. deterministic (f i)"
  shows "deterministic (arrayFromIn f indices)"
proof (induction indices)
  case Nil
  show ?case by (simp add: deterministic_return)
next
  case (Cons i rest)
  have "deterministic (andThen (arrayFromIn f rest) (\<lambda>xs. return (x # xs)))" for x
    using Cons.IH by (rule deterministic_andThen) (rule deterministic_return)
  with assms [of i] show ?case by (simp add: deterministic_andThen)
qed

lemma deterministic_deriveKeyPairIn:
  assumes "deterministicLibrary kl"
  shows "deterministic (deriveKeyPairIn kl rootNode i)"
  unfolding deriveKeyPairIn_def
  using assms by (intro deterministic_andThen) (simp_all add: deterministicLibrary_def)

lemma deterministic_deriveKeyPairsIn:
  assumes "deterministicLibrary kl"
  shows "deterministic (deriveKeyPairsIn kl phrase n)"
  unfolding deriveKeyPairsIn_def
proof (intro deterministic_andThen deterministic_arrayFromIn)
  show "deterministic (kl_mnemonicToSeedSync kl phrase)"
    using assms by (simp add: deterministicLibrary_def)
  show "deterministic (kl_fromSeed kl seed)" for seed
    using assms by (simp add: deterministicLibrary_def)
  show "deterministic (deriveKeyPairIn kl rootNode i)" for rootNode i
    using assms by (rule deterministic_deriveKeyPairIn)
qed

lemma andThen_Inr:
  assumes "fst (andThen m f w) = Inr y"
  shows "\<exists>x. fst (m w) = Inr x \<and> fst (f x (snd (m w))) = Inr y"
proof (cases "fst (m w)")
  case (Inl e)
  with assms show ?thesis by (simp add: fst_andThen)
next
  case (Inr x)
  with assms show ?thesis by (simp add: fst_andThen)
qed

lemma arrayFromIn_Inr:
  assumes "fst (arrayFromIn f indices w) = Inr ys"
  shows "length ys = length indices
       \<and> (\<forall>k<length indices. \<exists>w'. fst (f (indices ! k) w') = Inr (ys ! k))"
  using assms
proof (induction indices arbitrary: ys w)
  case Nil
  then show ?case by (simp add: return_def)
next
  case (Cons i rest)
  from Cons.prems have "fst (andThen (f i) (\<lambda>x. andThen (arrayFromIn f rest)
                               (\<lambda>xs. return (x # xs))) w) = Inr ys"
    by simp
  from andThen_Inr [OF this] obtain x
    where x: "fst (f i w) = Inr x"
      and "fst (andThen (arrayFromIn f rest) (\<lambda>xs. return (x # xs)) (snd (f i w))) = Inr ys"
    by blast
  from andThen_Inr [OF this(2)] obtain xs
    where xs: "fst (arrayFromIn f rest (snd (f i w))) = Inr xs" and ys: "ys = x # xs"
    by (auto simp add: return_def)
  from Cons.IH [OF xs] have len: "length xs = length rest"
    and nth: "\<forall>k<length rest. \<exists>w'. fst (f (rest ! k) w') = Inr (xs ! k)" by simp_all
  have "\<exists>w'. fst (f ((i # rest) ! k) w') = Inr (ys ! k)" if "k < length (i # rest)" for k
  proof (cases k)
    case 0
    with x ys show ?thesis by auto
  next
    case (Suc j)
    with that nth ys show ?thesis by simp
  qed
  with len ys show ?case by simp
qed

lemma arrayFromIn_stateless:
  "arrayFromIn (\<lambda>i. Pair (g i)) indices w = (arrayFrom g indices, w)"
proof (induction indices)
  case Nil
  show ?case by (simp add: return_def)
next
  case (Cons i rest)
  show ?case
  proof (cases "g i")
    case (Inl e)
    then show ?thesis by (simp add: andThen_def)
  next
    case (Inr x)
    then show ?thesis
      by (cases "arrayFrom g rest") (simp_all add: andThen_def Cons.IH return_def)
  qed
qed

lemma deriveKeyPairIn_stateless:
  "deriveKeyPairIn (stateless lib) rootNode = (\<lambda>i. Pair (deriveKeyPair lib rootNode i))"
proof (intro ext)
  fix i w
  show "deriveKeyPairIn (stateless lib) rootNode i w = (deriveKeyPair lib rootNode i, w)"
    by (cases "derivePath lib rootNode (derivationPath i)")
      (simp_all add: deriveKeyPairIn_def deriveKeyPair_def stateless_def andThen_def)
qed

lemma deriveKeyPairsIn_stateless:
  "deriveKeyPairsIn (stateless lib) phrase n w = (deriveKeyPairs lib phrase n, w)"
proof -
  have "deriveKeyPairsIn (stateless lib) phrase n w =
          (case fromSeed lib (mnemonicToSeedSync lib phrase) of
             Inl e \<Rightarrow> (Inl e, w)
           | Inr rootNode \<Rightarrow> arrayFromIn (deriveKeyPairIn (stateless lib) rootNode) [0..<n] w)"
    by (cases "fromSeed lib (mnemonicToSeedSync lib phrase)")
      (simp_all add: deriveKeyPairsIn_def andThen_def return_def
        stateless_def [of lib, THEN arg_cong, of kl_mnemonicToSeedSync]
        stateless_def [of lib, THEN arg_cong, of kl_fromSeed])
  then show ?thesis
    by (cases "fromSeed lib (mnemonicToSeedSync lib phrase)")
      (simp_all add: deriveKeyPairs_def deriveKeyPairIn_stateless arrayFromIn_stateless)
qed

text \<open>
  C8. With key libraries whose calls are deterministic, the derivation is: what it
  returns or throws for a phrase and a number of keys is the same in every state of the
  process, so two runs return the same key pairs. When it returns, there are as many key
  pairs as asked for, and the \<open>i\<close>-th is, in every state, what the library makes of
  the private key of the node at the path \<^verbatim>\<open>m/44'/1'/0'/0/i\<close> under the root node of the
  seed of the phrase: a function of the phrase, the path scheme and the index.
\<close>

theorem key_derivation_deterministic:
  assumes "deterministicLibrary kl"
  shows "fst (deriveKeyPairsIn kl phrase n w) = fst (deriveKeyPairsIn kl phrase n w')
       \<and> (fst (deriveKeyPairsIn kl phrase n w) = Inr keyPairs \<longrightarrow>
            length keyPairs = n
            \<and> (\<exists>seed rootNode.
                  fst (kl_mnemonicToSeedSync kl phrase w') = Inr seed
                  \<and> fst (kl_fromSeed kl seed w') = Inr rootNode
                  \<and> (\<forall>i<n. \<exists>derived.
                        fst (kl_derivePath kl rootNode
                               (''m/44'' @ [CHR 0x27] @ ''/1'' @ [CHR 0x27] @ ''/0'' @ [CHR 0x27]
                                  @ ''/0/'' @ showNat i) w') = Inr derived
                        \<and> fst (kl_fromPrivateKey kl (kl_privateKey kl derived) w')
                            = Inr (keyPairs ! i))))"
proof -
  from deterministic_deriveKeyPairsIn [OF assms, of phrase n]
  have same: "fst (deriveKeyPairsIn kl phrase n w) = fst (deriveKeyPairsIn kl phrase n w')"
    by (simp add: deterministic_def)
  have keys: "length keyPairs = n
            \<and> (\<exists>seed rootNode.
                  fst (kl_mnemonicToSeedSync kl phrase w') = Inr seed
                  \<and> fst (kl_fromSeed kl seed w') = Inr rootNode
                  \<and> (\<forall>i<n. \<exists>derived.
                        fst (kl_derivePath kl rootNode
                               (''m/44'' @ [CHR 0x27] @ ''/1'' @ [CHR 0x27] @ ''/0'' @ [CHR 0x27]
                                  @ ''/0/'' @ showNat i) w') = Inr derived
                        \<and> fst (kl_fromPrivateKey kl (kl_privateKey kl derived) w')
                            = Inr (keyPairs ! i)))"
    if run: "fst (deriveKeyPairsIn kl phrase n w) = Inr keyPairs"
  proof -
    have det: "fst (kl_mnemonicToSeedSync kl p v) = fst (kl_mnemonicToSeedSync kl p v')"
      "fst (kl_fromSeed kl s v) = fst (kl_fromSeed kl s v')"
      "fst (kl_derivePath kl nd pth v) = fst (kl_derivePath kl nd pth v')"
      "fst (kl_fromPrivateKey kl key v) = fst (kl_fromPrivateKey kl key v')"
      for p s nd pth key v v'
      using assms by (simp_all add: deterministicLibrary_def deterministic_def)
    from andThen_Inr [OF run [unfolded deriveKeyPairsIn_def]] obtain seed
      where seed: "fst (kl_mnemonicToSeedSync kl phrase w) = Inr seed"
        and "fst (andThen (kl_fromSeed kl seed)
                    (\<lambda>rootNode. arrayFromIn (deriveKeyPairIn kl rootNode) [0..<n])
                    (snd (kl_mnemonicToSeedSync kl phrase w))) = Inr keyPairs"
      by blast
    from andThen_Inr [OF this(2)] obtain rootNode w2
      where rootNode: "fst (kl_fromSeed kl seed (snd (kl_mnemonicToSeedSync kl phrase w))) = Inr rootNode"
        and arr: "fst (arrayFromIn (deriveKeyPairIn kl rootNode) [0..<n] w2) = Inr keyPairs"
      by blast
    from arrayFromIn_Inr [OF arr] have len: "length keyPairs = n"
      and each: "\<forall>k<n. \<exists>v. fst (deriveKeyPairIn kl rootNode k v) = Inr (keyPairs ! k)"
      by simp_all
    have path: "\<exists>derived.
          fst (kl_derivePath kl rootNode
                 (''m/44'' @ [CHR 0x27] @ ''/1'' @ [CHR 0x27] @ ''/0'' @ [CHR 0x27]
                    @ ''/0/'' @ showNat i) w') = Inr derived
          \<and> fst (kl_fromPrivateKey kl (kl_privateKey kl derived) w') = Inr (keyPairs ! i)"
      if "i < n" for i
    proof -
      from each that obtain v where "fst (deriveKeyPairIn kl rootNode i v) = Inr (keyPairs ! i)"
        by blast
      from andThen_Inr [OF this [unfolded deriveKeyPairIn_def derivationPath_def]] obtain derived
        where d: "fst (kl_derivePath kl rootNode
                 (''m/44'' @ [CHR 0x27] @ ''/1'' @ [CHR 0x27] @ ''/0'' @ [CHR 0x27]
                    @ ''/0/'' @ showNat i) v) = Inr derived"
          and k: "fst (kl_fromPrivateKey kl (kl_privateKey kl derived)
                    (snd (kl_derivePath kl rootNode
                 (''m/44'' @ [CHR 0x27] @ ''/1'' @ [CHR 0x27] @ ''/0'' @ [CHR 0x27]
                    @ ''/0/'' @ showNat i) v))) = Inr (keyPairs ! i)"
        by blast
      from d have "fst (kl_derivePath kl rootNode
                 (''m/44'' @ [CHR 0x27] @ ''/1'' @ [CHR 0x27] @ ''/0'' @ [CHR 0x27]
                    @ ''/0/'' @ showNat i) w') = Inr derived"
        by (simp only: det(3) [of rootNode _ w' v])
      moreover from k
      have "fst (kl_fromPrivateKey kl (kl_privateKey kl derived) w') = Inr (keyPairs ! i)"
        by (simp only: det(4) [of "kl_privateKey kl derived" w'
              "snd (kl_derivePath kl rootNode
                 (''m/44'' @ [CHR 0x27] @ ''/1'' @ [CHR 0x27] @ ''/0'' @ [CHR 0x27]
                    @ ''/0/'' @ showNat i) v)"])
      ultimately show ?thesis by blast
    qed
    from seed have s': "fst (kl_mnemonicToSeedSync kl phrase w') = Inr seed"
      by (simp only: det(1) [of phrase w' w])
    from rootNode have r': "fst (kl_fromSeed kl seed w') = Inr rootNode"
      by (simp only: det(2) [of seed w' "snd (kl_mnemonicToSeedSync kl phrase w)"])
    from len s' r' path show ?thesis by blast
  qed
  from same keys show ?thesis by blast
qed

theorem key_derivation_deterministic_witness:
  "deterministicLibrary exampleKeys
   \<and> deriveKeyPairsIn exampleKeys mnemonic 3 0 =
       (Inr [\<lparr>privateKey = [88, 109, 47, 52, 52, 39, 47, 49, 39, 47, 48, 39, 47, 48, 47, 48],
              publicKey = [168, 147, 209, 204, 204, 217, 209, 207, 217, 209, 208, 217, 209, 208,
                           209, 208]\<rparr>,
             \<lparr>privateKey = [88, 109, 47, 52, 52, 39, 47, 49, 39, 47, 48, 39, 47, 48, 47, 49],
              publicKey = [168, 147, 209, 204, 204, 217, 209, 207, 217, 209, 208, 217, 209, 208,
                           209, 207]\<rparr>,
             \<lparr>privateKey = [88, 109, 47, 52, 52, 39, 47, 49, 39, 47, 48, 39, 47, 48, 47, 50],
              publicKey = [168, 147, 209, 204, 204, 217, 209, 207, 217, 209, 208, 217, 209, 208,
                           209, 206]\<rparr>], 8)
   \<and> fst (deriveKeyPairsIn exampleKeys mnemonic 3 5) =
       Inr [\<lparr>privateKey = [88, 109, 47, 52, 52, 39, 47, 49, 39, 47, 48, 39, 47, 48, 47, 48],
             publicKey = [168, 147, 209, 204, 204, 217, 209, 207, 217, 209, 208, 217, 209, 208,
                          209, 208]\<rparr>,
            \<lparr>privateKey = [88, 109, 47, 52, 52, 39, 47, 49, 39, 47, 48, 39, 47, 48, 47, 49],
             publicKey = [168, 147, 209, 204, 204, 217, 209, 207, 217, 209, 208, 217, 209, 208,
                          209, 207]\<rparr>,
            \<lparr>privateKey = [88, 109, 47, 52, 52, 39, 47, 49, 39, 47, 48, 39, 47, 48, 47, 50],
             publicKey = [168, 147, 209, 204, 204, 217, 209, 207, 217, 209, 208, 217, 209, 208,
                          209, 206]\<rparr>]
   \<and> fst (kl_derivePath exampleKeys [88]
              (''m/44'' @ [CHR 0x27] @ ''/1'' @ [CHR 0x27] @ ''/0'' @ [CHR 0x27] @ ''/0/2'') 5)
       = Inr [88, 109, 47, 52, 52, 39, 47, 49, 39, 47, 48, 39, 47, 48, 47, 50]"
proof -
  let ?keys = "[\<lparr>privateKey = [88, 109, 47, 52, 52, 39, 47, 49, 39, 47, 48, 39, 47, 48, 47, 48],
              publicKey = [168, 147, 209, 204, 204, 217, 209, 207, 217, 209, 208, 217, 209, 208,
                           209, 208]\<rparr>,
             \<lparr>privateKey = [88, 109, 47, 52, 52, 39, 47, 49, 39, 47, 48, 39, 47, 48, 47, 49],
              publicKey = [168, 147, 209, 204, 204, 217, 209, 207, 217, 209, 208, 217, 209, 208,
                           209, 207]\<rparr>,
             \<lparr>privateKey = [88, 109, 47, 52, 52, 39, 47, 49, 39, 47, 48, 39, 47, 48, 47, 50 :: 8 word],
              publicKey = [168, 147, 209, 204, 204, 217, 209, 207, 217, 209, 208, 217, 209, 208,
                           209, 206 :: 8 word]\<rparr>]"
  have det: "deterministicLibrary exampleKeys"
    by (simp add: deterministicLibrary_def deterministic_def exampleKeys_def split: option.split)
  have run: "deriveKeyPairsIn exampleKeys mnemonic 3 0 = (Inr ?keys, 8)"
    by (simp add: deriveKeyPairsIn_def deriveKeyPairIn_def exampleKeys_def andThen_def return_def
        derivationPath_def showNat.simps mnemonic_def upt_rec)
  from key_derivation_deterministic [OF det, of mnemonic 3 0 5 ?keys] run
  have again: "fst (deriveKeyPairsIn exampleKeys mnemonic 3 5) = Inr ?keys"
    by simp
  have path: "fst (kl_derivePath exampleKeys [88]
              (''m/44'' @ [CHR 0x27] @ ''/1'' @ [CHR 0x27] @ ''/0'' @ [CHR 0x27] @ ''/0/2'') 5)
       = Inr [88, 109, 47, 52, 52, 39, 47, 49, 39, 47, 48, 39, 47, 48, 47, 50]"
    by (simp add: exampleKeys_def)
  from det run again path show ?thesis by (simp only: simp_thms)
qed

lemma randomKeys_not_deterministic:
  "\<not> deterministicLibrary randomKeys
   \<and> fst (deriveKeyPairsIn randomKeys mnemonic 1 0)
       = Inr [\<lparr>privateKey = [3], publicKey = [253]\<rparr>]
   \<and> fst (deriveKeyPairsIn randomKeys mnemonic 1 1)
       = Inr [\<lparr>privateKey = [4], publicKey = [252]\<rparr>]"
proof -
  have a: "fst (deriveKeyPairsIn randomKeys mnemonic 1 0)
       = Inr [\<lparr>privateKey = [3], publicKey = [253]\<rparr>]"
    by (simp add: deriveKeyPairsIn_def deriveKeyPairIn_def randomKeys_def exampleKeys_def
        andThen_def return_def)
  have b: "fst (deriveKeyPairsIn randomKeys mnemonic 1 1)
       = Inr [\<lparr>privateKey = [4], publicKey = [252]\<rparr>]"
    by (simp add: deriveKeyPairsIn_def deriveKeyPairIn_def randomKeys_def exampleKeys_def
        andThen_def return_def)
  have "\<not> deterministicLibrary randomKeys"
  proof
    assume "deterministicLibrary randomKeys"
    from deterministic_deriveKeyPairsIn [OF this, of mnemonic 1]
    have "fst (deriveKeyPairsIn randomKeys mnemonic 1 0) = fst (deriveKeyPairsIn randomKeys mnemonic 1 1)"
      by (simp add: deterministic_def)
    with a b show False by simp
  qed
  with a b show ?thesis by simp
qed

subsection \<open>The multisig construction\<close>

lemma bufferCompare_le: "bufferCompare a b \<le> 0 \<longleftrightarrow> a \<le> b"
  by (induction a b rule: bufferCompare.induct) auto

lemma bufferCompare_less: "bufferCompare a b < 0 \<longleftrightarrow> a < b"
  by (induction a b rule: bufferCompare.induct) auto

lemma bufferCompare_eq: "bufferCompare a b = 0 \<longleftrightarrow> a = b"
  by (induction a b rule: bufferCompare.induct) auto

lemma insertSorted_insort: "insertSorted bufferCompare x ys = insort x ys"
  by (induction ys) (simp_all add: bufferCompare_le)

lemma arraySort_sort: "arraySort bufferCompare xs = sort xs"
  by (induction xs) (simp_all add: insertSorted_insort)

lemma arraySort_mset_eq:
  assumes "mset xs = mset ys"
  shows "arraySort bufferCompare xs = arraySort bufferCompare ys"
proof -
  have "sort xs = sorted_list_of_multiset (mset xs)" by (simp add: sorted_list_of_multiset_mset)
  also have "\<dots> = sorted_list_of_multiset (mset ys)" by (simp add: assms)
  also have "\<dots> = sort ys" by (simp add: sorted_list_of_multiset_mset)
  finally show ?thesis by (simp add: arraySort_sort)
qed

lemma sortedPublicKeys_sort: "sortedPublicKeys keyPairs = sort (map publicKey keyPairs)"
  by (simp add: sortedPublicKeys_def arraySort_sort)

lemma sorted_example: "sortedPublicKeys [keyA, keyB, keyC] = [[2, 187], [3, 17], [3, 170]]"
  by (simp add: sortedPublicKeys_def keyA_def keyB_def keyC_def)

lemma buildMultisig_example:
  "buildMultisig exampleLibrary m [keyA, keyB, keyC] =
     Inr (\<lparr>pay_output = Some [80 + of_nat m, 2, 2, 187, 2, 3, 17, 2, 3, 170, 83, 174],
           pay_address = None\<rparr>,
          Some (''2'' @ toHex [80 + of_nat m, 2, 2, 187, 2, 3, 17, 2, 3, 170, 83, 174]))"
  by (simp add: buildMultisig_def sorted_example exampleLibrary_def)

text \<open>
  C1. For every threshold and every library, two lists of key pairs that are
  permutations of each other give the same sorted public keys, hence the same redeem
  script payment and the same address; the keys reach the script sorted by the byte
  comparison of buffers, and they are the keys of the key pairs.
\<close>

theorem multisig_invariant_under_key_order:
  assumes "mset keyPairs' = mset keyPairs"
  shows "sortedPublicKeys keyPairs' = sortedPublicKeys keyPairs
       \<and> buildMultisig lib m keyPairs' = buildMultisig lib m keyPairs
       \<and> sorted_wrt (\<lambda>a b. bufferCompare a b \<le> 0) (sortedPublicKeys keyPairs)
       \<and> mset (sortedPublicKeys keyPairs) = mset (map publicKey keyPairs)"
proof -
  from assms have "mset (map publicKey keyPairs') = mset (map publicKey keyPairs)"
    by (metis mset_map)
  then have eq: "sortedPublicKeys keyPairs' = sortedPublicKeys keyPairs"
    unfolding sortedPublicKeys_def by (rule arraySort_mset_eq)
  have "sorted (sortedPublicKeys keyPairs)"
    by (simp add: sortedPublicKeys_sort)
  then have "sorted_wrt (\<lambda>a b. bufferCompare a b \<le> 0) (sortedPublicKeys keyPairs)"
    by (simp add: bufferCompare_le)
  moreover have "mset (sortedPublicKeys keyPairs) = mset (map publicKey keyPairs)"
    by (simp add: sortedPublicKeys_sort)
  ultimately show ?thesis using eq by (simp add: buildMultisig_def)
qed

theorem multisig_invariant_under_key_order_witness:
  "mset [keyC, keyA, keyB] = mset [keyA, keyB, keyC]
   \<and> buildMultisig exampleLibrary 2 [keyC, keyA, keyB]
       = buildMultisig exampleLibrary 2 [keyA, keyB, keyC]"
proof -
  have h: "mset [keyC, keyA, keyB] = mset [keyA, keyB, keyC]"
    by (simp add: add_mset_commute)
  from multisig_invariant_under_key_order [OF h, of exampleLibrary 2] h show ?thesis by simp
qed

text \<open>
  The thresholds. The script fixes the threshold 2 and the number of keys 3, so
  \<open>1 \<le> M \<le> N\<close> holds where the construction runs, on as many public keys as
  \<open>TOTAL_KEYS\<close>. The construction itself compares the threshold with nothing: it
  fails exactly when the call of \<^verbatim>\<open>p2ms\<close> or of \<^verbatim>\<open>p2sh\<close> fails, with the error of
  that call.
\<close>

lemma thresholds_fixed_not_validated:
  "1 \<le> REQUIRED_SIGNATURES \<and> REQUIRED_SIGNATURES \<le> TOTAL_KEYS
   \<and> (deriveKeyPairs lib mnemonic TOTAL_KEYS = Inr keyPairs \<longrightarrow>
        length (sortedPublicKeys keyPairs) = TOTAL_KEYS)
   \<and> (buildMultisig lib m keyPairs = Inl e \<longleftrightarrow>
        p2ms lib m (sortedPublicKeys keyPairs) = Inl e
        \<or> (\<exists>pm. p2ms lib m (sortedPublicKeys keyPairs) = Inr pm \<and> p2sh lib pm = Inl e))"
proof -
  have "length (sortedPublicKeys keyPairs) = TOTAL_KEYS"
    if "deriveKeyPairs lib mnemonic TOTAL_KEYS = Inr keyPairs"
  proof -
    from that obtain rootNode
      where "arrayFrom (deriveKeyPair lib rootNode) [0..<TOTAL_KEYS] = Inr keyPairs"
      unfolding deriveKeyPairs_Inr by blast
    from arrayFrom_Inr [OF this] have "length keyPairs = TOTAL_KEYS" by simp
    then show ?thesis by (simp add: sortedPublicKeys_sort)
  qed
  moreover have "buildMultisig lib m keyPairs = Inl e \<longleftrightarrow>
        p2ms lib m (sortedPublicKeys keyPairs) = Inl e
        \<or> (\<exists>pm. p2ms lib m (sortedPublicKeys keyPairs) = Inr pm \<and> p2sh lib pm = Inl e)"
  proof (cases "p2ms lib m (sortedPublicKeys keyPairs)")
    case (Inl e')
    then show ?thesis by (simp add: buildMultisig_def)
  next
    case (Inr pm)
    then show ?thesis by (cases "p2sh lib pm") (simp_all add: buildMultisig_def)
  qed
  ultimately show ?thesis by (simp add: REQUIRED_SIGNATURES_def TOTAL_KEYS_def)
qed

subsection \<open>The saved keys\<close>

lemma keysArtifact_Inr:
  "keysArtifact lib keyPairs pm addr = Inr a \<longleftrightarrow>
     (\<exists>script. pay_output pm = Some script
        \<and> a = \<lparr>wifs = map (toWIF lib) keyPairs, redeemScript = toHex script,
                 multisigAddress = addr\<rparr>)"
  by (cases "pay_output pm") (auto simp add: keysArtifact_def)

lemma buildMultisig_Inr:
  "buildMultisig lib m keyPairs = Inr (pm, addr) \<longleftrightarrow>
     p2ms lib m (sortedPublicKeys keyPairs) = Inr pm
     \<and> (\<exists>ps. p2sh lib pm = Inr ps \<and> addr = pay_address ps)"
proof (cases "p2ms lib m (sortedPublicKeys keyPairs)")
  case (Inl e)
  then show ?thesis by (simp add: buildMultisig_def)
next
  case (Inr pm')
  then show ?thesis by (cases "p2sh lib pm'") (auto simp add: buildMultisig_def)
qed

lemma generateKeys_Inr:
  assumes "generateKeys lib phrase n m = Inr a"
  shows "\<exists>keyPairs pm script.
           deriveKeyPairs lib phrase n = Inr keyPairs
           \<and> wifs a = map (toWIF lib) keyPairs
           \<and> p2ms lib m (sortedPublicKeys keyPairs) = Inr pm
           \<and> pay_output pm = Some script
           \<and> redeemScript a = toHex script"
proof (cases "deriveKeyPairs lib phrase n")
  case (Inl e)
  with assms show ?thesis by (simp add: generateKeys_def)
next
  case kp: (Inr keyPairs)
  show ?thesis
  proof (cases "buildMultisig lib m keyPairs")
    case (Inl e)
    with assms kp show ?thesis by (simp add: generateKeys_def)
  next
    case (Inr r)
    obtain pm addr where r: "r = (pm, addr)" by (cases r)
    with Inr have bm: "buildMultisig lib m keyPairs = Inr (pm, addr)" by simp
    with assms kp have "keysArtifact lib keyPairs pm addr = Inr a"
      by (simp add: generateKeys_def)
    then obtain script where "pay_output pm = Some script"
      and "a = \<lparr>wifs = map (toWIF lib) keyPairs, redeemScript = toHex script,
                 multisigAddress = addr\<rparr>"
      unfolding keysArtifact_Inr by blast
    moreover from bm have "p2ms lib m (sortedPublicKeys keyPairs) = Inr pm"
      unfolding buildMultisig_Inr by blast
    ultimately show ?thesis using kp by auto
  qed
qed

lemma bootstrapKeys_example:
  "bootstrapKeys exampleLibrary =
     Inr \<lparr>wifs = [''c2f30'', ''c2f31'', ''c2f32''],
          redeemScript = ''5202d1ce02d1cf02d1d053ae'',
          multisigAddress = Some ''25202d1ce02d1cf02d1d053ae''\<rparr>"
  unfolding bootstrapKeys_def generateKeys_def deriveKeyPairs_example
  by (simp add: buildMultisig_def sortedPublicKeys_def keysArtifact_def exampleLibrary_def
      REQUIRED_SIGNATURES_def toHex_def hexDigit_def)

text \<open>
  C10. In the saved object the WIFs are those of the key pairs in the order of their
  derivation, and the redeem script is the hexadecimal form of the script the library
  compiles from the sorted public keys. The two orders differ in general: of the key
  pairs \<open>keyA\<close>, \<open>keyB\<close>, \<open>keyC\<close> the first has the public key \<open>03aa\<close>, and the
  first key of the script is \<open>02bb\<close>.
\<close>

theorem saved_wifs_derivation_order_script_sorted:
  "(generateKeys lib phrase n m = Inr a \<longrightarrow>
      (\<exists>keyPairs pm script.
           deriveKeyPairs lib phrase n = Inr keyPairs
           \<and> wifs a = map (toWIF lib) keyPairs
           \<and> p2ms lib m (sortedPublicKeys keyPairs) = Inr pm
           \<and> pay_output pm = Some script
           \<and> redeemScript a = toHex script
           \<and> sorted_wrt (\<lambda>x y. bufferCompare x y \<le> 0) (sortedPublicKeys keyPairs)
           \<and> mset (sortedPublicKeys keyPairs) = mset (map publicKey keyPairs)))
   \<and> publicKey ([keyA, keyB, keyC] ! 0) \<noteq> sortedPublicKeys [keyA, keyB, keyC] ! 0"
proof -
  have ex: "publicKey ([keyA, keyB, keyC] ! 0) \<noteq> sortedPublicKeys [keyA, keyB, keyC] ! 0"
    unfolding sorted_example by (simp add: keyA_def)
  have "sorted (sortedPublicKeys keyPairs)" for keyPairs
    by (simp add: sortedPublicKeys_sort)
  then have s: "sorted_wrt (\<lambda>x y. bufferCompare x y \<le> 0) (sortedPublicKeys keyPairs)" for keyPairs
    by (simp add: bufferCompare_le)
  have m: "mset (sortedPublicKeys keyPairs) = mset (map publicKey keyPairs)" for keyPairs
    by (simp add: sortedPublicKeys_sort)
  from generateKeys_Inr [of lib phrase n m a] s m ex show ?thesis by blast
qed

theorem saved_wifs_derivation_order_script_sorted_witness:
  "bootstrapKeys exampleLibrary =
     Inr \<lparr>wifs = [''c2f30'', ''c2f31'', ''c2f32''],
          redeemScript = ''5202d1ce02d1cf02d1d053ae'',
          multisigAddress = Some ''25202d1ce02d1cf02d1d053ae''\<rparr>
   \<and> (\<exists>keyPairs. deriveKeyPairs exampleLibrary mnemonic TOTAL_KEYS = Inr keyPairs
        \<and> [''c2f30'', ''c2f31'', ''c2f32''] = map (toWIF exampleLibrary) keyPairs)"
  using saved_wifs_derivation_order_script_sorted [of exampleLibrary mnemonic TOTAL_KEYS REQUIRED_SIGNATURES
      "\<lparr>wifs = [''c2f30'', ''c2f31'', ''c2f32''],
          redeemScript = ''5202d1ce02d1cf02d1d053ae'',
          multisigAddress = Some ''25202d1ce02d1cf02d1d053ae''\<rparr>"] bootstrapKeys_example
  by (auto simp add: bootstrapKeys_def)

subsection \<open>Wallet setup\<close>

text \<open>
  C4. When the \<^verbatim>\<open>loadwallet\<close> command fails, the error code read from the message
  decides alone what happens. With \<open>-4\<close> or \<open>-18\<close> (which the script reads as
  "does not exist or directory is missing") the wallet is created: the directory of the
  wallet is removed if it exists, the parent directory is made if it does not, and the
  command \<^verbatim>\<open>createwallet\<close> is run for the wallet, with private keys disabled for the
  multisig wallet only; the setup ends as the first of these that throws, or succeeds.
  With \<open>-35\<close> ("already loaded") the setup succeeds and does nothing more. With any
  other code, or none, the error of the load is thrown again.
\<close>

theorem load_error_branching:
  assumes "execSync sys (BITCOIN_CLI_BASE cfg @ '' loadwallet '' @ [CHR 0x22] @ walletName
                           @ [CHR 0x22]) w = (Inl err, w1)"
  shows "setupWallet sys privateKeysEnabled cfg walletName w =
     (let loadErr = Error (''Command failed: '' @ BITCOIN_CLI_BASE cfg @ '' loadwallet ''
                             @ [CHR 0x22] @ walletName @ [CHR 0x22] @ [CHR 0x0A]
                             @ ''Error: '' @ errorDetail err);
          errorCode = getErrorCode (message loadErr);
          walletDir = (if walletName = ''sky-wallet'' then FAUCET_WALLET_DIR cfg
                       else WALLET_DIR cfg);
          createwallet = BITCOIN_CLI_BASE cfg @ '' -named createwallet wallet_name=''
                           @ [CHR 0x22] @ walletName @ [CHR 0x22] @ '' disable_private_keys=''
                           @ (if walletName = ''test_multisig_wallet'' then ''true'' else ''false'')
                           @ '' blank=false passphrase='' @ [CHR 0x22, CHR 0x22]
                           @ '' avoid_reuse=false descriptors=true''
      in if errorCode = Some (- 4) \<or> errorCode = Some (- 18) then
           (case (if existsSync sys walletDir w1 then rmSync sys walletDir w1 else (Inr (), w1)) of
              (Inl e, wa) \<Rightarrow> (Inl e, wa)
            | (Inr _, wa) \<Rightarrow>
                (case (if \<not> existsSync sys (dirname cfg walletDir) wa
                       then mkdirSync sys (dirname cfg walletDir) wa else (Inr (), wa)) of
                   (Inl e, wb) \<Rightarrow> (Inl e, wb)
                 | (Inr _, wb) \<Rightarrow>
                     (case execSync sys createwallet wb of
                        (Inl err', wc) \<Rightarrow>
                          (Inl (Error (''Command failed: '' @ createwallet @ [CHR 0x0A]
                                        @ ''Error: '' @ errorDetail err')), wc)
                      | (Inr out, wc) \<Rightarrow> (Inr (), wc))))
         else if errorCode = Some (- 35) then (Inr (), w1)
         else (Inl loadErr, w1))"
proof -
  let ?loadErr = "Error (''Command failed: '' @ BITCOIN_CLI_BASE cfg @ '' loadwallet ''
                             @ [CHR 0x22] @ walletName @ [CHR 0x22] @ [CHR 0x0A]
                             @ ''Error: '' @ errorDetail err)"
  have load: "loadWallet sys privateKeysEnabled cfg walletName w = (Inl ?loadErr, w1)"
    using assms
    by (simp add: loadWallet_def andThen_def runCliCommand_def loadwalletCommand_def dquote_def
        commandFailed_def newline_def)
  have caught: "setupWallet sys privateKeysEnabled cfg walletName w
                 = onLoadError sys cfg walletName ?loadErr w1"
    by (simp add: setupWallet_def tryCatch_def load)
  let ?walletDir = "if walletName = ''sky-wallet'' then FAUCET_WALLET_DIR cfg else WALLET_DIR cfg"
  let ?createwallet = "BITCOIN_CLI_BASE cfg @ '' -named createwallet wallet_name=''
                           @ [CHR 0x22] @ walletName @ [CHR 0x22] @ '' disable_private_keys=''
                           @ (if walletName = ''test_multisig_wallet'' then ''true'' else ''false'')
                           @ '' blank=false passphrase='' @ [CHR 0x22, CHR 0x22]
                           @ '' avoid_reuse=false descriptors=true''"
  have dir: "walletDirOf cfg walletName = ?walletDir"
    by (simp add: walletDirOf_def FAUCET_WALLET_NAME_def)
  have cmd: "createwalletCommand cfg walletName
               (if walletName = MULTISIG_WALLET_NAME then ''true'' else ''false'') = ?createwallet"
    by (simp add: createwalletCommand_def MULTISIG_WALLET_NAME_def dquote_def)
  have run: "andThen (runCliCommand sys ?createwallet) (\<lambda>_. return ()) wb =
               (case execSync sys ?createwallet wb of
                  (Inl err', wc) \<Rightarrow>
                    (Inl (Error (''Command failed: '' @ ?createwallet @ [CHR 0x0A]
                                  @ ''Error: '' @ errorDetail err')), wc)
                | (Inr out, wc) \<Rightarrow> (Inr (), wc))" for wb
  proof -
    obtain r wc where r: "execSync sys ?createwallet wb = (r, wc)"
      by (cases "execSync sys ?createwallet wb")
    show ?thesis
      by (cases r) (simp_all only: andThen_def runCliCommand_def r return_def commandFailed_def
          newline_def prod.case sum.case)
  qed
  have create: "createWallet sys cfg walletName w1 =
       (case (if existsSync sys ?walletDir w1 then rmSync sys ?walletDir w1 else (Inr (), w1)) of
              (Inl e, wa) \<Rightarrow> (Inl e, wa)
            | (Inr _, wa) \<Rightarrow>
                (case (if \<not> existsSync sys (dirname cfg ?walletDir) wa
                       then mkdirSync sys (dirname cfg ?walletDir) wa else (Inr (), wa)) of
                   (Inl e, wb) \<Rightarrow> (Inl e, wb)
                 | (Inr _, wb) \<Rightarrow>
                     (case execSync sys ?createwallet wb of
                        (Inl err', wc) \<Rightarrow>
                          (Inl (Error (''Command failed: '' @ ?createwallet @ [CHR 0x0A]
                                        @ ''Error: '' @ errorDetail err')), wc)
                      | (Inr out, wc) \<Rightarrow> (Inr (), wc))))"
  proof -
    have steps: "createWallet sys cfg walletName w1 =
       (case removeIfExists sys ?walletDir w1 of
              (Inl e, wa) \<Rightarrow> (Inl e, wa)
            | (Inr _, wa) \<Rightarrow>
                (case ensureDir sys (dirname cfg ?walletDir) wa of
                   (Inl e, wb) \<Rightarrow> (Inl e, wb)
                 | (Inr _, wb) \<Rightarrow> andThen (runCliCommand sys ?createwallet) (\<lambda>_. return ()) wb))"
      unfolding createWallet_def Let_def dir cmd
      by (simp only: andThen_def [of "removeIfExists sys ?walletDir"]
          andThen_def [of "ensureDir sys (dirname cfg ?walletDir)"])
    show ?thesis
      unfolding steps run by (simp only: removeIfExists_def ensureDir_def return_def)
  qed
  define code where "code = getErrorCode (message ?loadErr)"
  have caught': "onLoadError sys cfg walletName ?loadErr w1 =
          (if code = Some (- 4) \<or> code = Some (- 18) then createWallet sys cfg walletName w1
           else if code = Some (- 35) then (Inr (), w1) else (Inl ?loadErr, w1))"
    unfolding onLoadError_def Let_def code_def return_def throw_def by (simp only: if_distribR)
  show ?thesis
    unfolding caught caught' create Let_def code_def by (rule refl)
qed

theorem load_error_branching_witness:
  "setupWallet recorded (\<lambda>info. Inr False) exampleConfig ''sky-wallet''
       \<lparr>answers = [Inl walletMissing, Inr ''{}''], issued = [], directories = []\<rparr>
     = (Inr (),
        \<lparr>answers = [],
         issued = [''bitcoin-cli -regtest loadwallet '' @ [CHR 0x22] @ ''sky-wallet'' @ [CHR 0x22],
                   ''bitcoin-cli -regtest -named createwallet wallet_name='' @ [CHR 0x22]
                     @ ''sky-wallet'' @ [CHR 0x22]
                     @ '' disable_private_keys=false blank=false passphrase=''
                     @ [CHR 0x22, CHR 0x22] @ '' avoid_reuse=false descriptors=true''],
         directories = [''/root/.bitcoin/regtest/wallets'']\<rparr>)
   \<and> setupWallet recorded (\<lambda>info. Inr False) exampleConfig ''test_multisig_wallet''
       \<lparr>answers = [Inl walletPathInvalid, Inr ''{}''], issued = [],
        directories = [''/root/.bitcoin/regtest/wallets'',
                       ''/root/.bitcoin/regtest/wallets/test_multisig_wallet'']\<rparr>
     = (Inr (),
        \<lparr>answers = [],
         issued = [''bitcoin-cli -regtest loadwallet '' @ [CHR 0x22] @ ''test_multisig_wallet''
                     @ [CHR 0x22],
                   ''bitcoin-cli -regtest -named createwallet wallet_name='' @ [CHR 0x22]
                     @ ''test_multisig_wallet'' @ [CHR 0x22]
                     @ '' disable_private_keys=true blank=false passphrase=''
                     @ [CHR 0x22, CHR 0x22] @ '' avoid_reuse=false descriptors=true''],
         directories = [''/root/.bitcoin/regtest/wallets'']\<rparr>)
   \<and> setupWallet recorded (\<lambda>info. Inr False) exampleConfig ''sky-wallet''
       \<lparr>answers = [Inl walletLoaded, Inr ''{}''], issued = [], directories = []\<rparr>
     = (Inr (),
        \<lparr>answers = [Inr ''{}''],
         issued = [''bitcoin-cli -regtest loadwallet '' @ [CHR 0x22] @ ''sky-wallet'' @ [CHR 0x22]],
         directories = []\<rparr>)
   \<and> setupWallet recorded (\<lambda>info. Inr False) exampleConfig ''sky-wallet''
       \<lparr>answers = [Inl nodeWarmingUp, Inr ''{}''], issued = [], directories = []\<rparr>
     = (Inl (Error (''Command failed: bitcoin-cli -regtest loadwallet '' @ [CHR 0x22]
                     @ ''sky-wallet'' @ [CHR 0x22] @ [CHR 0x0A] @ ''Error: error code: -28''
                     @ [CHR 0x0A] @ ''error message:'' @ [CHR 0x0A] @ ''Loading wallet...'')),
        \<lparr>answers = [Inr ''{}''],
         issued = [''bitcoin-cli -regtest loadwallet '' @ [CHR 0x22] @ ''sky-wallet'' @ [CHR 0x22]],
         directories = []\<rparr>)"
proof -
  have base: "BITCOIN_CLI_BASE exampleConfig = ''bitcoin-cli -regtest''"
    by (simp add: BITCOIN_CLI_BASE_def exampleConfig_def)
  have load: "execSync recorded (BITCOIN_CLI_BASE exampleConfig @ '' loadwallet '' @ [CHR 0x22]
                  @ walletName @ [CHR 0x22])
                \<lparr>answers = [Inl err, Inr ''{}''], issued = [], directories = dirs\<rparr>
              = (Inl err,
                 \<lparr>answers = [Inr ''{}''],
                  issued = [''bitcoin-cli -regtest loadwallet '' @ [CHR 0x22] @ walletName
                              @ [CHR 0x22]],
                  directories = dirs\<rparr>)" for err walletName dirs
    unfolding base by (simp add: recorded_def)
  note eval = getErrorCode_def errorDetail_def matchHere_def parseInt_def isWhiteSpace_def
    isDigit_def digitsValue_def digitValue_def newline_def
  have missing: "getErrorCode (''Command failed: '' @ ''bitcoin-cli -regtest'' @ '' loadwallet ''
                   @ [CHR 0x22] @ ''sky-wallet'' @ [CHR 0x22] @ [CHR 0x0A] @ ''Error: ''
                   @ errorDetail walletMissing) = Some (- 18)"
    by (simp add: eval walletMissing_def)
  have invalid: "getErrorCode (''Command failed: '' @ ''bitcoin-cli -regtest'' @ '' loadwallet ''
                   @ [CHR 0x22] @ ''test_multisig_wallet'' @ [CHR 0x22] @ [CHR 0x0A] @ ''Error: ''
                   @ errorDetail walletPathInvalid) = Some (- 4)"
    by (simp add: eval walletPathInvalid_def)
  have loaded: "getErrorCode (''Command failed: '' @ ''bitcoin-cli -regtest'' @ '' loadwallet ''
                   @ [CHR 0x22] @ ''sky-wallet'' @ [CHR 0x22] @ [CHR 0x0A] @ ''Error: ''
                   @ errorDetail walletLoaded) = Some (- 35)"
    by (simp add: eval walletLoaded_def)
  have warming: "getErrorCode (''Command failed: '' @ ''bitcoin-cli -regtest'' @ '' loadwallet ''
                   @ [CHR 0x22] @ ''sky-wallet'' @ [CHR 0x22] @ [CHR 0x0A] @ ''Error: ''
                   @ errorDetail nodeWarmingUp) = Some (- 28)"
    by (simp add: eval nodeWarmingUp_def)
  have a: "setupWallet recorded (\<lambda>info. Inr False) exampleConfig ''sky-wallet''
       \<lparr>answers = [Inl walletMissing, Inr ''{}''], issued = [], directories = []\<rparr>
     = (Inr (),
        \<lparr>answers = [],
         issued = [''bitcoin-cli -regtest loadwallet '' @ [CHR 0x22] @ ''sky-wallet'' @ [CHR 0x22],
                   ''bitcoin-cli -regtest -named createwallet wallet_name='' @ [CHR 0x22]
                     @ ''sky-wallet'' @ [CHR 0x22]
                     @ '' disable_private_keys=false blank=false passphrase=''
                     @ [CHR 0x22, CHR 0x22] @ '' avoid_reuse=false descriptors=true''],
         directories = [''/root/.bitcoin/regtest/wallets'']\<rparr>)"
    unfolding load_error_branching [OF load [where err = walletMissing and walletName = "''sky-wallet''" and dirs = "[]"],
        where privateKeysEnabled = "\<lambda>info. Inr False"] Let_def message.simps base missing
    by (simp add: recorded_def exampleConfig_def)
  have b: "setupWallet recorded (\<lambda>info. Inr False) exampleConfig ''test_multisig_wallet''
       \<lparr>answers = [Inl walletPathInvalid, Inr ''{}''], issued = [],
        directories = [''/root/.bitcoin/regtest/wallets'',
                       ''/root/.bitcoin/regtest/wallets/test_multisig_wallet'']\<rparr>
     = (Inr (),
        \<lparr>answers = [],
         issued = [''bitcoin-cli -regtest loadwallet '' @ [CHR 0x22] @ ''test_multisig_wallet''
                     @ [CHR 0x22],
                   ''bitcoin-cli -regtest -named createwallet wallet_name='' @ [CHR 0x22]
                     @ ''test_multisig_wallet'' @ [CHR 0x22]
                     @ '' disable_private_keys=true blank=false passphrase=''
                     @ [CHR 0x22, CHR 0x22] @ '' avoid_reuse=false descriptors=true''],
         directories = [''/root/.bitcoin/regtest/wallets'']\<rparr>)"
    unfolding load_error_branching [OF load [where err = walletPathInvalid
          and walletName = "''test_multisig_wallet''"
          and dirs = "[''/root/.bitcoin/regtest/wallets'',
                      ''/root/.bitcoin/regtest/wallets/test_multisig_wallet'']"],
        where privateKeysEnabled = "\<lambda>info. Inr False"] Let_def message.simps base invalid
    by (simp add: recorded_def exampleConfig_def)
  have c: "setupWallet recorded (\<lambda>info. Inr False) exampleConfig ''sky-wallet''
       \<lparr>answers = [Inl walletLoaded, Inr ''{}''], issued = [], directories = []\<rparr>
     = (Inr (),
        \<lparr>answers = [Inr ''{}''],
         issued = [''bitcoin-cli -regtest loadwallet '' @ [CHR 0x22] @ ''sky-wallet'' @ [CHR 0x22]],
         directories = []\<rparr>)"
    unfolding load_error_branching [OF load [where err = walletLoaded and walletName = "''sky-wallet''" and dirs = "[]"],
        where privateKeysEnabled = "\<lambda>info. Inr False"] Let_def message.simps base loaded
    by simp
  have d: "setupWallet recorded (\<lambda>info. Inr False) exampleConfig ''sky-wallet''
       \<lparr>answers = [Inl nodeWarmingUp, Inr ''{}''], issued = [], directories = []\<rparr>
     = (Inl (Error (''Command failed: bitcoin-cli -regtest loadwallet '' @ [CHR 0x22]
                     @ ''sky-wallet'' @ [CHR 0x22] @ [CHR 0x0A] @ ''Error: error code: -28''
                     @ [CHR 0x0A] @ ''error message:'' @ [CHR 0x0A] @ ''Loading wallet...'')),
        \<lparr>answers = [Inr ''{}''],
         issued = [''bitcoin-cli -regtest loadwallet '' @ [CHR 0x22] @ ''sky-wallet'' @ [CHR 0x22]],
         directories = []\<rparr>)"
    unfolding load_error_branching [OF load [where err = nodeWarmingUp and walletName = "''sky-wallet''" and dirs = "[]"],
        where privateKeysEnabled = "\<lambda>info. Inr False"] Let_def message.simps base warming
    by (simp add: errorDetail_def nodeWarmingUp_def newline_def)
  from a b c d show ?thesis by (simp only: simp_thms)
qed

subsection \<open>Coin maturation\<close>

lemma decimal_digit:
  assumes "k < 10"
  shows "isDigit (''0123456789'' ! k) \<and> digitValue (''0123456789'' ! k) = int k
       \<and> \<not> isWhiteSpace (''0123456789'' ! k)
       \<and> ''0123456789'' ! k \<noteq> CHR ''-'' \<and> ''0123456789'' ! k \<noteq> CHR ''+''"
proof -
  from assms have "k = 0 \<or> k = 1 \<or> k = 2 \<or> k = 3 \<or> k = 4 \<or> k = 5 \<or> k = 6
      \<or> k = 7 \<or> k = 8 \<or> k = 9" by presburger
  then show ?thesis
    by (elim disjE) (simp_all add: isDigit_def digitValue_def isWhiteSpace_def)
qed

lemma showNat_digits: "c \<in> set (showNat n) \<Longrightarrow> isDigit c \<and> \<not> isWhiteSpace c"
proof (induction n arbitrary: c rule: showNat.induct)
  case (1 n)
  show ?case
  proof (cases "n < 10")
    case True
    with "1.prems" have "c = ''0123456789'' ! n" by (simp add: showNat.simps [of n])
    with decimal_digit [OF True] show ?thesis by simp
  next
    case False
    with "1.prems" have "c \<in> set (showNat (n div 10)) \<or> c = ''0123456789'' ! (n mod 10)"
      by (auto simp add: showNat.simps [of n])
    moreover have "n mod 10 < 10" by simp
    ultimately show ?thesis using "1.IH" [OF False] decimal_digit [of "n mod 10"] by blast
  qed
qed

lemma showNat_not_Nil: "showNat n \<noteq> []"
  by (simp add: showNat.simps [of n])

lemma showNat_hd: "showNat n = c # r \<Longrightarrow> c \<noteq> CHR ''-'' \<and> c \<noteq> CHR ''+'' \<and> \<not> isWhiteSpace c"
proof (induction n arbitrary: c r rule: showNat.induct)
  case (1 n)
  show ?case
  proof (cases "n < 10")
    case True
    with "1.prems" have "c = ''0123456789'' ! n" by (simp add: showNat.simps [of n])
    with decimal_digit [OF True] show ?thesis by simp
  next
    case False
    obtain c' r' where h: "showNat (n div 10) = c' # r'"
      using showNat_not_Nil [of "n div 10"] by (cases "showNat (n div 10)") simp_all
    with False "1.prems" have "c = c'" by (simp add: showNat.simps [of n])
    with "1.IH" [OF False h] show ?thesis by simp
  qed
qed

lemma digitsValue_snoc: "digitsValue (ds @ [c]) = 10 * digitsValue ds + digitValue c"
  by (simp add: digitsValue_def)

lemma digitsValue_showNat: "digitsValue (showNat n) = int n"
proof (induction n rule: showNat.induct)
  case (1 n)
  show ?case
  proof (cases "n < 10")
    case True
    with decimal_digit [OF True] show ?thesis
      by (simp add: showNat.simps [of n] digitsValue_def)
  next
    case False
    have "n mod 10 < 10" by simp
    from decimal_digit [OF this] have "digitValue (''0123456789'' ! (n mod 10)) = int (n mod 10)"
      by simp
    with False "1.IH" [OF False] have "digitsValue (showNat n) = 10 * int (n div 10) + int (n mod 10)"
      by (simp add: showNat.simps [of n] digitsValue_snoc)
    then show ?thesis by presburger
  qed
qed

lemma parseInt_showNat: "parseInt (showNat n) = Some (int n)"
proof -
  obtain c r where cr: "showNat n = c # r"
    using showNat_not_Nil [of n] by (cases "showNat n") simp_all
  from showNat_hd [OF cr] have c: "c \<noteq> CHR ''-''" "c \<noteq> CHR ''+''" "\<not> isWhiteSpace c" by simp_all
  have "\<forall>x\<in>set (c # r). isDigit x" using showNat_digits [of _ n] cr by simp
  then have tw: "takeWhile isDigit (c # r) = c # r" by (simp only: takeWhile_eq_all_conv)
  have "parseInt (c # r) = Some (digitsValue (c # r))"
    unfolding parseInt_def using c tw by (simp add: Let_def)
  then show ?thesis using digitsValue_showNat [of n] cr by simp
qed

lemma trim_showNat: "trim (showNat n @ [CHR 0x0A]) = showNat n"
proof -
  obtain c r where cr: "showNat n = c # r"
    using showNat_not_Nil [of n] by (cases "showNat n") simp_all
  from showNat_hd [OF cr] have c: "\<not> isWhiteSpace c" by simp
  have a: "dropWhile isWhiteSpace (showNat n @ [CHR 0x0A]) = showNat n @ [CHR 0x0A]"
    using cr c by simp
  have "rev (showNat n) \<noteq> []" using cr by simp
  then obtain d s where ds: "rev (showNat n) = d # s" by (cases "rev (showNat n)") simp_all
  then have "d \<in> set (showNat n)" by (metis list.set_intros(1) set_rev)
  then have d: "\<not> isWhiteSpace d" using showNat_digits by blast
  have lf: "isWhiteSpace (CHR 0x0A)" by (simp add: isWhiteSpace_def)
  have "dropWhile isWhiteSpace (rev (showNat n @ [CHR 0x0A])) = rev (showNat n)"
    using ds d lf by simp
  then show ?thesis unfolding trim_def a by simp
qed

lemma regtestNode_matures:
  "matureCoins regtestNode (cfg\<lparr>env_BITCOIN_CLI := None\<rparr>) height =
     (Inr ''mxFaucetAddress'', if height < 101 then height + 101 else height)"
proof -
  have base: "BITCOIN_CLI_BASE (cfg\<lparr>env_BITCOIN_CLI := None\<rparr>) = ''bitcoin-cli -regtest''"
    by (simp add: BITCOIN_CLI_BASE_def)
  have addr: "trim (''mxFaucetAddress'' @ [CHR 0x0A]) = ''mxFaucetAddress''"
    by (simp add: trim_def isWhiteSpace_def)
  have a: "runCliCommand regtestNode (getnewaddressCommand (cfg\<lparr>env_BITCOIN_CLI := None\<rparr>)) height
             = (Inr ''mxFaucetAddress'', height)"
    unfolding runCliCommand_def getnewaddressCommand_def base
    by (simp add: regtestNode_def FAUCET_WALLET_NAME_def dquote_def trim_def isWhiteSpace_def)
  have b: "runCliCommand regtestNode (getblockcountCommand (cfg\<lparr>env_BITCOIN_CLI := None\<rparr>)) height
             = (Inr (showNat height), height)"
    unfolding runCliCommand_def getblockcountCommand_def base
    by (simp add: regtestNode_def trim_showNat)
  have n101: "parseInt ''101 mxFaucetAddress'' = Some 101"
    by (simp add: parseInt_def isWhiteSpace_def isDigit_def digitsValue_def digitValue_def)
  have tr: "trim (''[]'' @ [CHR 0x0A]) = ''[]''"
    by (simp add: trim_def isWhiteSpace_def)
  have c: "runCliCommand regtestNode
             (generatetoaddressCommand (cfg\<lparr>env_BITCOIN_CLI := None\<rparr>) 101 ''mxFaucetAddress'') height
             = (Inr ''[]'', height + 101)"
    unfolding runCliCommand_def generatetoaddressCommand_def base
    by (simp add: regtestNode_def showNat.simps n101 trim_def isWhiteSpace_def)
  show ?thesis
    unfolding matureCoins_def andThen_def
    by (simp add: a b c parseInt_showNat lessThan101_def return_def)
qed

text \<open>
  C6. Once the faucet address and the height \<open>h\<close> of the chain are read: below 101 the
  step runs the command \<^verbatim>\<open>generatetoaddress 101\<close> with the faucet address on the world
  the height was read in, and ends as that command does; from 101 on it runs no further
  command and leaves that world as it is. On the regtest node, whose chain grows by the
  blocks it is told to generate, the step started at any height ends at a height of at
  least 101: at the height plus 101 when it started below 101, at the same height
  otherwise.
\<close>

theorem maturation_below_101_only:
  assumes "execSync sys (BITCOIN_CLI_BASE cfg @ '' -rpcwallet=sky-wallet getnewaddress ''
                           @ [CHR 0x22, CHR 0x22] @ '' legacy'') w = (Inr out1, w1)"
      and "execSync sys (BITCOIN_CLI_BASE cfg @ '' getblockcount'') w1 = (Inr out2, w2)"
      and "parseInt (trim out2) = Some h"
  shows "(h < 101 \<longrightarrow>
            matureCoins sys cfg w =
              (case execSync sys (BITCOIN_CLI_BASE cfg @ '' generatetoaddress 101 '' @ trim out1) w2 of
                 (Inl err, w3) \<Rightarrow>
                   (Inl (Error (''Command failed: '' @ BITCOIN_CLI_BASE cfg
                                 @ '' generatetoaddress 101 '' @ trim out1 @ [CHR 0x0A]
                                 @ ''Error: '' @ errorDetail err)), w3)
               | (Inr _, w3) \<Rightarrow> (Inr (trim out1), w3)))
       \<and> (101 \<le> h \<longrightarrow> matureCoins sys cfg w = (Inr (trim out1), w2))
       \<and> matureCoins regtestNode (cfg\<lparr>env_BITCOIN_CLI := None\<rparr>) height =
           (Inr ''mxFaucetAddress'', if height < 101 then height + 101 else height)"
proof -
  have a: "runCliCommand sys (getnewaddressCommand cfg) w = (Inr (trim out1), w1)"
    using assms(1)
    by (simp add: runCliCommand_def getnewaddressCommand_def FAUCET_WALLET_NAME_def dquote_def)
  have b: "runCliCommand sys (getblockcountCommand cfg) w1 = (Inr (trim out2), w2)"
    using assms(2) by (simp add: runCliCommand_def getblockcountCommand_def)
  have cmd: "generatetoaddressCommand cfg 101 (trim out1) =
               BITCOIN_CLI_BASE cfg @ '' generatetoaddress 101 '' @ trim out1"
    by (simp add: generatetoaddressCommand_def showNat.simps)
  have low: "matureCoins sys cfg w =
              (case execSync sys (BITCOIN_CLI_BASE cfg @ '' generatetoaddress 101 '' @ trim out1) w2 of
                 (Inl err, w3) \<Rightarrow>
                   (Inl (Error (''Command failed: '' @ BITCOIN_CLI_BASE cfg
                                 @ '' generatetoaddress 101 '' @ trim out1 @ [CHR 0x0A]
                                 @ ''Error: '' @ errorDetail err)), w3)
               | (Inr _, w3) \<Rightarrow> (Inr (trim out1), w3))" if "h < 101"
  proof -
    obtain r w3 where r: "execSync sys (BITCOIN_CLI_BASE cfg @ '' generatetoaddress 101 '' @ trim out1) w2
                            = (r, w3)"
      by (cases "execSync sys (BITCOIN_CLI_BASE cfg @ '' generatetoaddress 101 '' @ trim out1) w2")
    show ?thesis
    proof (cases r)
      case (Inl err)
      with r that a b assms(3) show ?thesis
        by (simp add: matureCoins_def andThen_def lessThan101_def cmd runCliCommand_def [of sys "_ @ _"]
            commandFailed_def newline_def)
    next
      case (Inr out3)
      with r that a b assms(3) show ?thesis
        by (simp add: matureCoins_def andThen_def lessThan101_def cmd runCliCommand_def [of sys "_ @ _"]
            return_def)
    qed
  qed
  have high: "matureCoins sys cfg w = (Inr (trim out1), w2)" if "101 \<le> h"
    using that a b assms(3)
    by (simp add: matureCoins_def andThen_def lessThan101_def return_def)
  from low high regtestNode_matures [of cfg height] show ?thesis by blast
qed

theorem maturation_below_101_only_witness:
  "matureCoins regtestNode exampleConfig 7 = (Inr ''mxFaucetAddress'', 108)
   \<and> matureCoins regtestNode exampleConfig 150 = (Inr ''mxFaucetAddress'', 150)
   \<and> execSync regtestNode ''bitcoin-cli -regtest generatetoaddress 101 mxFaucetAddress'' 7
       = (Inr (''[]'' @ [CHR 0x0A]), 108)"
proof -
  have base: "BITCOIN_CLI_BASE exampleConfig = ''bitcoin-cli -regtest''"
    by (simp add: BITCOIN_CLI_BASE_def exampleConfig_def)
  have a: "execSync regtestNode (BITCOIN_CLI_BASE exampleConfig
             @ '' -rpcwallet=sky-wallet getnewaddress '' @ [CHR 0x22, CHR 0x22] @ '' legacy'') height
           = (Inr (''mxFaucetAddress'' @ [CHR 0x0A]), height)" for height
    unfolding base by (simp add: regtestNode_def)
  have b: "execSync regtestNode (BITCOIN_CLI_BASE exampleConfig @ '' getblockcount'') height
           = (Inr (showNat height @ [CHR 0x0A]), height)" for height
    unfolding base by (simp add: regtestNode_def)
  have c: "parseInt (trim (showNat height @ [CHR 0x0A])) = Some (int height)" for height
    by (simp only: trim_showNat parseInt_showNat)
  have t: "trim (''mxFaucetAddress'' @ [CHR 0x0A]) = ''mxFaucetAddress''"
    by (simp add: trim_def isWhiteSpace_def)
  have m: "execSync regtestNode ''bitcoin-cli -regtest generatetoaddress 101 mxFaucetAddress'' 7
       = (Inr (''[]'' @ [CHR 0x0A]), 108)"
    by (simp add: regtestNode_def parseInt_def isWhiteSpace_def isDigit_def digitsValue_def
        digitValue_def)
  from maturation_below_101_only [OF a b c, of 7] m
  have low: "matureCoins regtestNode exampleConfig 7 = (Inr ''mxFaucetAddress'', 108)"
    unfolding base t by simp
  from maturation_below_101_only [OF a b c, of 150]
  have high: "matureCoins regtestNode exampleConfig 150 = (Inr ''mxFaucetAddress'', 150)"
    unfolding base t by simp
  from low high m show ?thesis by simp
qed

subsection \<open>Rounding to a double\<close>

lemma floor_rat_numeral: "\<lfloor>numeral a / numeral b :: rat\<rfloor> = numeral a div numeral b"
  using floor_divide_of_int_eq [of "numeral a" "numeral b", where ?'a = rat] by simp

lemma ceiling_rat_numeral: "\<lceil>numeral a / numeral b :: rat\<rceil> = - ((- numeral a) div numeral b)"
  using floor_divide_of_int_eq [of "- numeral a" "numeral b", where ?'a = rat]
  by (simp add: ceiling_def)

lemmas double_eval = double_def ilog2_def bitlen.simps roundHalfEven_def Let_def power_int_minus
  floor_rat_numeral ceiling_rat_numeral

lemma bitlen_bounds: "0 < n \<Longrightarrow> 2 ^ (bitlen n - 1) \<le> n \<and> n < 2 ^ bitlen n"
proof (induction n rule: bitlen.induct)
  case (1 n)
  show ?case
  proof (cases "n div 2 = 0")
    case True
    with "1.prems" have "n = 1" by presburger
    then show ?thesis by (simp add: bitlen.simps)
  next
    case False
    then have pos: "0 < n div 2" by simp
    from "1.prems" have n0: "n \<noteq> 0" by simp
    from "1.IH" [OF n0 pos]
    have lo: "2 ^ (bitlen (n div 2) - 1) \<le> n div 2" and hi: "n div 2 < 2 ^ bitlen (n div 2)"
      by simp_all
    have b: "bitlen n = Suc (bitlen (n div 2))"
      using n0 by (simp add: bitlen.simps [of n])
    have bpos: "0 < bitlen (n div 2)"
      using pos by (simp add: bitlen.simps [of "n div 2"])
    then have "(2::nat) ^ bitlen (n div 2) = 2 * 2 ^ (bitlen (n div 2) - 1)"
      by (cases "bitlen (n div 2)") simp_all
    with lo have "2 ^ bitlen (n div 2) \<le> 2 * (n div 2)" by simp
    also have "\<dots> \<le> n" by simp
    finally have l: "2 ^ (bitlen n - 1) \<le> n" by (simp add: b)
    from hi have "n div 2 + 1 \<le> 2 ^ bitlen (n div 2)" by simp
    then have "2 * (n div 2) + 2 \<le> 2 * 2 ^ bitlen (n div 2)" by simp
    moreover have "n < 2 * (n div 2) + 2" by presburger
    ultimately have "n < 2 ^ bitlen n" by (simp add: b)
    with l show ?thesis by simp
  qed
qed

lemma ilog2_bounds:
  assumes "0 < x"
  shows "2 powi (ilog2 x) \<le> x \<and> x < 2 powi (ilog2 x + 1)"
proof (cases "1 \<le> x")
  case True
  define N where "N = nat \<lfloor>x\<rfloor>"
  have fl1: "1 \<le> \<lfloor>x\<rfloor>" using True by simp
  then have Npos: "0 < N" by (simp add: N_def)
  have Nx: "rat_of_nat N \<le> x" and xN: "x < rat_of_nat N + 1"
    using fl1 floor_correct [of x] by (simp_all add: N_def)
  from bitlen_bounds [OF Npos]
  have lo: "2 ^ (bitlen N - 1) \<le> N" and hi: "N < 2 ^ bitlen N" by simp_all
  have bpos: "0 < bitlen N" using Npos by (simp add: bitlen.simps [of N])
  have il: "ilog2 x = int (bitlen N - 1)"
    using True bpos by (simp add: ilog2_def N_def)
  have "rat_of_nat (2 ^ (bitlen N - 1)) \<le> rat_of_nat N" using lo by (rule of_nat_mono)
  then have "(2::rat) ^ (bitlen N - 1) \<le> rat_of_nat N" by (simp only: of_nat_power of_nat_numeral)
  moreover have "(2::rat) powi (ilog2 x) = 2 ^ (bitlen N - 1)" by (simp only: il power_int_of_nat)
  ultimately have a: "2 powi (ilog2 x) \<le> x" using Nx by linarith
  have "N + 1 \<le> 2 ^ bitlen N" using hi by simp
  then have "rat_of_nat (N + 1) \<le> rat_of_nat (2 ^ bitlen N)" by (rule of_nat_mono)
  then have "rat_of_nat N + 1 \<le> (2::rat) ^ bitlen N" by (simp only: of_nat_power of_nat_numeral of_nat_add of_nat_1)
  moreover have "ilog2 x + 1 = int (bitlen N)" using il bpos by simp
  then have "(2::rat) powi (ilog2 x + 1) = 2 ^ bitlen N" by (simp only: power_int_of_nat)
  ultimately have "x < 2 powi (ilog2 x + 1)" using xN by linarith
  with a show ?thesis by simp
next
  case False
  then have x1: "x < 1" by simp
  define y where "y = 1 / x"
  have y1: "1 < y" using assms x1 by (simp add: y_def)
  define M where "M = nat (\<lceil>y\<rceil> - 1)"
  have c2: "2 \<le> \<lceil>y\<rceil>" using y1 by (simp add: le_ceiling_iff)
  then have Mpos: "0 < M" by (simp add: M_def)
  have My: "rat_of_nat M < y"
  proof -
    have "rat_of_int (\<lceil>y\<rceil> - 1) < y" using ceiling_correct [of y] by simp
    moreover have "rat_of_nat M = rat_of_int (\<lceil>y\<rceil> - 1)" using c2 by (simp add: M_def)
    ultimately show ?thesis by simp
  qed
  have yM: "y \<le> rat_of_nat M + 1"
  proof -
    have "y \<le> rat_of_int \<lceil>y\<rceil>" by simp
    moreover have "rat_of_nat M + 1 = rat_of_int \<lceil>y\<rceil>" using c2 by (simp add: M_def)
    ultimately show ?thesis by simp
  qed
  from bitlen_bounds [OF Mpos]
  have lo: "2 ^ (bitlen M - 1) \<le> M" and hi: "M < 2 ^ bitlen M" by simp_all
  have bpos: "0 < bitlen M" using Mpos by (simp add: bitlen.simps [of M])
  have il: "ilog2 x = - int (bitlen M)"
    using False by (simp add: ilog2_def M_def y_def)
  have "M + 1 \<le> 2 ^ bitlen M" using hi by simp
  then have "rat_of_nat (M + 1) \<le> rat_of_nat (2 ^ bitlen M)" by (rule of_nat_mono)
  then have "rat_of_nat M + 1 \<le> (2::rat) ^ bitlen M" by (simp only: of_nat_power of_nat_numeral of_nat_add of_nat_1)
  with yM have "y \<le> 2 ^ bitlen M" by linarith
  then have "1 / x \<le> 2 ^ bitlen M" by (simp add: y_def)
  then have "1 \<le> 2 ^ bitlen M * x" using assms by (simp add: field_simps)
  then have a: "2 powi (ilog2 x) \<le> x"
    by (simp add: il power_int_minus field_simps)
  have "rat_of_nat (2 ^ (bitlen M - 1)) \<le> rat_of_nat M" using lo by (rule of_nat_mono)
  then have "(2::rat) ^ (bitlen M - 1) \<le> rat_of_nat M" by (simp only: of_nat_power of_nat_numeral)
  with My have "2 ^ (bitlen M - 1) < y" by linarith
  then have "2 ^ (bitlen M - 1) < 1 / x" by (simp add: y_def)
  then have "2 ^ (bitlen M - 1) * x < 1" using assms by (simp add: field_simps)
  moreover have "ilog2 x + 1 = - int (bitlen M - 1)" using il bpos by simp
  ultimately have "x < 2 powi (ilog2 x + 1)"
    by (simp add: power_int_minus field_simps)
  with a show ?thesis by simp
qed

lemma roundHalfEven_ge_floor: "\<lfloor>m\<rfloor> \<le> roundHalfEven m"
  by (simp add: roundHalfEven_def Let_def)

lemma double_ge_pow2:
  assumes "2 powi n \<le> x"
  shows "2 powi n \<le> double x"
proof -
  have pos: "0 < x"
  proof -
    have "(0::rat) < 2 powi n" by simp
    with assms show ?thesis by linarith
  qed
  define L where "L = ilog2 x"
  from ilog2_bounds [OF pos] have lo: "2 powi L \<le> x" and hi: "x < 2 powi (L + 1)"
    by (simp_all add: L_def)
  from assms hi have "(2::rat) powi n < 2 powi (L + 1)" by simp
  then have "n < L + 1"
  proof (rule contrapos_pp)
    assume "\<not> n < L + 1"
    then have "L + 1 \<le> n" by simp
    then have "(2::rat) powi (L + 1) \<le> 2 powi n" by (rule power_int_increasing) simp
    then show "\<not> (2::rat) powi n < 2 powi (L + 1)" by simp
  qed
  then have nL: "(2::rat) powi n \<le> 2 powi L"
    by (intro power_int_increasing) simp_all
  have split: "(2::rat) powi L = 2 ^ 52 * 2 powi (L - 52)"
  proof -
    have "(2::rat) powi L = 2 powi (52 + (L - 52))" by simp
    also have "\<dots> = 2 powi 52 * 2 powi (L - 52)" by (subst power_int_add) simp_all
    finally show ?thesis by simp
  qed
  have epos: "(0::rat) < 2 powi (L - 52)" by simp
  have "2 ^ 52 \<le> x / 2 powi (L - 52)"
    using lo epos by (simp add: split pos_le_divide_eq)
  then have "of_int (2 ^ 52) \<le> x / 2 powi (L - 52)" by simp
  then have "(2 ^ 52 :: int) \<le> \<lfloor>x / 2 powi (L - 52)\<rfloor>" by (simp only: le_floor_iff)
  also have "\<dots> \<le> roundHalfEven (x / 2 powi (L - 52))" by (rule roundHalfEven_ge_floor)
  finally have "rat_of_int (2 ^ 52) \<le> rat_of_int (roundHalfEven (x / 2 powi (L - 52)))"
    by (simp only: of_int_le_iff)
  then have "2 ^ 52 * 2 powi (L - 52) \<le> rat_of_int (roundHalfEven (x / 2 powi (L - 52))) * 2 powi (L - 52)"
    using epos by simp
  moreover have "double x = rat_of_int (roundHalfEven (x / 2 powi (L - 52))) * 2 powi (L - 52)"
    using pos by (simp add: double_def L_def Let_def)
  ultimately have "2 powi L \<le> double x" by (simp add: split)
  with nL show ?thesis by simp
qed

lemma FUNDING_AMOUNT_BTC_value: "FUNDING_AMOUNT_BTC = 5764607523034235 / 576460752303423488"
  by (simp add: FUNDING_AMOUNT_BTC_def double_eval)

lemma threshold_value:
  "jsAdd FUNDING_AMOUNT_BTC (double (1 / 1000)) = 3170534137668829 / 288230376151711744"
  by (simp add: FUNDING_AMOUNT_BTC_value jsAdd_def) (simp add: double_eval)

lemma double_11_1000: "double (11 / 1000) = 3170534137668829 / 288230376151711744"
  by (simp add: double_eval)

lemma feeEstimate_value: "feeEstimate = 5902958103587057 / 1180591620717411303424"
  by (simp add: feeEstimate_def jsDiv_def jsMul_def FEE_RATE_SAT_PER_VBYTE_def txSizeEstimate_def
      double_eval)

lemma double_5_1000000: "double (5 / 1000000) = 5902958103587057 / 1180591620717411303424"
  by (simp add: double_eval)

lemma spec_threshold_value:
  "jsAdd FUNDING_AMOUNT_BTC feeEstimate = 720936228349469 / 72057594037927936"
  by (simp add: FUNDING_AMOUNT_BTC_value feeEstimate_value jsAdd_def) (simp add: double_eval)

lemma btc_1050000: "btc 1050000 = 6052837899185947 / 576460752303423488"
  by (simp add: btc_def double_eval)

lemma btc_5000000000: "btc 5000000000 = 50"
  by (simp add: btc_def double_eval)

lemma btc_2500000000: "btc 2500000000 = 25"
  by (simp add: btc_def double_eval)

subsection \<open>The funding transaction\<close>

lemma suitable_iff: "suitable u \<longleftrightarrow> double (11 / 1000) \<le> amount u \<and> spendable u"
  by (simp add: suitable_def threshold_value double_11_1000)

lemma changeAmount_positive:
  assumes "suitable u"
  shows "0 < changeAmount u"
proof -
  from assms have a: "3170534137668829 / 288230376151711744 \<le> amount u"
    by (simp add: suitable_def threshold_value)
  have "(2::rat) powi (- 10) \<le> amount u - FUNDING_AMOUNT_BTC"
    using a by (simp add: FUNDING_AMOUNT_BTC_value power_int_minus)
  then have b: "2 powi (- 10) \<le> jsSub (amount u) FUNDING_AMOUNT_BTC"
    unfolding jsSub_def by (rule double_ge_pow2)
  have "(2::rat) powi (- 11) \<le> jsSub (amount u) FUNDING_AMOUNT_BTC - feeEstimate"
    using b by (simp add: feeEstimate_value power_int_minus)
  then have "2 powi (- 11) \<le> changeAmount u"
    unfolding changeAmount_def jsSub_def [of _ feeEstimate] by (rule double_ge_pow2)
  moreover have "(0::rat) < 2 powi (- 11)" by simp
  ultimately show ?thesis by linarith
qed

lemma suitable_smallUtxo: "\<not> suitable smallUtxo"
  by (simp add: suitable_iff smallUtxo_def btc_1050000 double_11_1000)

lemma suitable_coinbaseUtxo: "suitable coinbaseUtxo"
  by (simp add: suitable_iff coinbaseUtxo_def btc_5000000000 double_11_1000)

lemma selectUtxo_Inr:
  "selectUtxo utxos = Inr u \<longleftrightarrow>
     (\<exists>i<length utxos. utxos ! i = u \<and> suitable u \<and> (\<forall>j<i. \<not> suitable (utxos ! j)))"
proof (cases "List.find suitable utxos")
  case None
  then have "selectUtxo utxos \<noteq> Inr u"
    by (simp add: selectUtxo_def)
  moreover from None have "\<not> (\<exists>v. v \<in> set utxos \<and> suitable v)"
    by (simp add: find_None_iff)
  then have "\<not> (\<exists>i<length utxos. utxos ! i = u \<and> suitable u
                 \<and> (\<forall>j<i. \<not> suitable (utxos ! j)))"
    using nth_mem by blast
  ultimately show ?thesis by blast
next
  case (Some v)
  then have "selectUtxo utxos = Inr u \<longleftrightarrow> List.find suitable utxos = Some u"
    by (simp add: selectUtxo_def)
  then show ?thesis
    by (simp only: find_Some_iff) blast
qed

lemma selectUtxo_Inl:
  "selectUtxo utxos = Inl e \<longleftrightarrow>
     e = Error ''No suitable UTXO found in faucet wallet.'' \<and> (\<forall>v\<in>set utxos. \<not> suitable v)"
proof (cases "List.find suitable utxos")
  case None
  then have "selectUtxo utxos = Inl (Error ''No suitable UTXO found in faucet wallet.'')"
    by (simp add: selectUtxo_def)
  moreover from None have "\<not> (\<exists>v. v \<in> set utxos \<and> suitable v)"
    by (simp add: find_None_iff)
  ultimately show ?thesis by auto
next
  case (Some v)
  then have "selectUtxo utxos \<noteq> Inl e"
    by (simp add: selectUtxo_def)
  moreover from Some have "\<exists>i<length utxos. suitable (utxos ! i)"
    by (simp only: find_Some_iff) blast
  then have "\<exists>v\<in>set utxos. suitable v"
    using nth_mem by blast
  ultimately show ?thesis by blast
qed

text \<open>
  C3, as the code has it. The funding step selects the first entry, in listing order,
  that is spendable and whose amount is at least \<^verbatim>\<open>FUNDING_AMOUNT_BTC + 0.001\<close>, the
  double nearest to 0.011: the margin is the constant 0.001 BTC, not the fee estimate
  of 0.000005 BTC. With no such entry the step throws
  \<^verbatim>\<open>No suitable UTXO found in faucet wallet.\<close>, and so does the funding.
\<close>

theorem first_suitable_utxo_selected:
  "(selectUtxo utxos = Inr u \<longleftrightarrow>
      (\<exists>i<length utxos. utxos ! i = u \<and> suitable u \<and> (\<forall>j<i. \<not> suitable (utxos ! j))))
   \<and> ((\<forall>v\<in>set utxos. \<not> suitable v) \<longleftrightarrow>
         selectUtxo utxos = Inl (Error ''No suitable UTXO found in faucet wallet.''))
   \<and> ((\<forall>v\<in>set utxos. \<not> suitable v) \<longrightarrow>
         planFunding utxos = Inl (Error ''No suitable UTXO found in faucet wallet.''))
   \<and> (suitable u \<longleftrightarrow> double (11 / 1000) \<le> amount u \<and> spendable u)"
proof -
  have "(\<forall>v\<in>set utxos. \<not> suitable v) \<longrightarrow>
          planFunding utxos = Inl (Error ''No suitable UTXO found in faucet wallet.'')"
  proof
    assume "\<forall>v\<in>set utxos. \<not> suitable v"
    then have "selectUtxo utxos = Inl (Error ''No suitable UTXO found in faucet wallet.'')"
      by (simp add: selectUtxo_Inl)
    then show "planFunding utxos = Inl (Error ''No suitable UTXO found in faucet wallet.'')"
      by (simp add: planFunding_def)
  qed
  then show ?thesis
    using selectUtxo_Inr [of utxos u] selectUtxo_Inl [of utxos] suitable_iff [of u] by blast
qed

theorem first_suitable_utxo_selected_witness:
  "selectUtxo [smallUtxo, coinbaseUtxo, halvedUtxo] = Inr coinbaseUtxo
   \<and> planFunding [smallUtxo] = Inl (Error ''No suitable UTXO found in faucet wallet.'')"
proof -
  have "\<exists>i<length [smallUtxo, coinbaseUtxo, halvedUtxo].
          [smallUtxo, coinbaseUtxo, halvedUtxo] ! i = coinbaseUtxo \<and> suitable coinbaseUtxo
          \<and> (\<forall>j<i. \<not> suitable ([smallUtxo, coinbaseUtxo, halvedUtxo] ! j))"
    by (rule exI [of _ 1]) (simp add: suitable_smallUtxo suitable_coinbaseUtxo)
  with first_suitable_utxo_selected [of "[smallUtxo, coinbaseUtxo, halvedUtxo]" coinbaseUtxo]
  have a: "selectUtxo [smallUtxo, coinbaseUtxo, halvedUtxo] = Inr coinbaseUtxo"
    by blast
  have "\<forall>v\<in>set [smallUtxo]. \<not> suitable v"
    by (simp add: suitable_smallUtxo)
  with first_suitable_utxo_selected [of "[smallUtxo]"]
  have "planFunding [smallUtxo] = Inl (Error ''No suitable UTXO found in faucet wallet.'')"
    by blast
  with a show ?thesis by simp
qed

text \<open>
  C3, as the specification words it, fails: an entry of 0.0105 BTC is spendable and
  holds the funding amount plus the fee estimate, and the step selects nothing.
\<close>

theorem first_suitable_utxo_counterexample:
  "List.find suitableAsSpecified [smallUtxo] = Some smallUtxo
   \<and> selectUtxo [smallUtxo] = Inl (Error ''No suitable UTXO found in faucet wallet.'')"
proof -
  have "suitableAsSpecified smallUtxo"
    by (simp add: suitableAsSpecified_def spec_threshold_value smallUtxo_def btc_1050000)
  moreover have "selectUtxo [smallUtxo] = Inl (Error ''No suitable UTXO found in faucet wallet.'')"
    by (simp add: selectUtxo_def suitable_smallUtxo)
  ultimately show ?thesis by simp
qed

text \<open>
  C9. The branch \<^verbatim>\<open>Insufficient funds for transaction and fee\<close> is never taken: a
  selected entry holds at least the double nearest to 0.011, the fee estimate is the
  double nearest to 0.000005, and the change is positive, so the funding plan is the
  selected entry with its change.
\<close>

theorem insufficient_funds_unreachable:
  "planFunding utxos \<noteq> Inl (Error ''Insufficient funds for transaction and fee'')
   \<and> feeEstimate = double (5 / 1000000)
   \<and> (selectUtxo utxos = Inr u \<longrightarrow>
        double (11 / 1000) \<le> amount u \<and> 0 < changeAmount u
        \<and> planFunding utxos = Inr (u, changeAmount u))"
proof -
  have fee: "feeEstimate = double (5 / 1000000)"
    by (simp only: feeEstimate_value double_5_1000000)
  have sel: "selectUtxo utxos = Inr v \<Longrightarrow>
      double (11 / 1000) \<le> amount v \<and> 0 < changeAmount v
      \<and> planFunding utxos = Inr (v, changeAmount v)" for v
  proof -
    assume a: "selectUtxo utxos = Inr v"
    then have s: "suitable v" by (auto simp add: selectUtxo_Inr)
    from changeAmount_positive [OF s] have c: "0 < changeAmount v" .
    from s have "double (11 / 1000) \<le> amount v" by (simp add: suitable_iff)
    with a c show ?thesis by (simp add: planFunding_def)
  qed
  have "planFunding utxos \<noteq> Inl (Error ''Insufficient funds for transaction and fee'')"
  proof (cases "selectUtxo utxos")
    case (Inl e)
    then have "e = Error ''No suitable UTXO found in faucet wallet.''"
      by (simp add: selectUtxo_Inl)
    with Inl show ?thesis by (simp add: planFunding_def)
  next
    case (Inr v)
    from sel [OF Inr] show ?thesis by simp
  qed
  with fee sel [of u] show ?thesis by blast
qed

theorem insufficient_funds_unreachable_witness:
  "selectUtxo [smallUtxo, coinbaseUtxo] = Inr coinbaseUtxo
   \<and> 0 < changeAmount coinbaseUtxo
   \<and> planFunding [smallUtxo, coinbaseUtxo] = Inr (coinbaseUtxo, changeAmount coinbaseUtxo)"
proof -
  have "selectUtxo [smallUtxo, coinbaseUtxo] = Inr coinbaseUtxo"
    by (simp add: selectUtxo_def suitable_smallUtxo suitable_coinbaseUtxo)
  with insufficient_funds_unreachable [of "[smallUtxo, coinbaseUtxo]" coinbaseUtxo]
  show ?thesis by simp
qed

subsection \<open>The spend\<close>

lemma spendValue_funding_amount: "spendValue (btc 1000000) = 990000"
  by (simp add: spendValue_def btc_def jsMul_def jsSub_def double_eval)

text \<open>
  C5 fails on the code. The step adds one input and one output, and for the 0.01 BTC the
  script itself sends the value of the output is 990000 satoshis, the amount less the
  fee. When the watch-only wallet lists an output of 0.06 BTC at the multisig address
  before the one of 0.01 BTC, the funding is seen, the first entry is the one spent, and
  the value handed to \<^verbatim>\<open>addOutput\<close> is 5989999 satoshis, one less than
  \<open>6000000 - 10000\<close>: the product \<^verbatim>\<open>(amount - 0.0001) * 1e8\<close> is the double just
  below 5990000, and \<^verbatim>\<open>Math.floor\<close> cuts it down. This holds whatever the library
  makes of the input and of the output.
\<close>

theorem spend_value_one_satoshi_short:
  "prepareSpend plib
     [\<lparr>mu_amount = btc 6000000, mu_address = multisigAddr,
       mu_txid = ''eeeeeeeeeeeeeeeeeeeeeeeeeeeeeeeeeeeeeeeeeeeeeeeeeeeeeeeeeeeeeeee'', mu_vout = 1\<rparr>,
      \<lparr>mu_amount = btc 1000000, mu_address = multisigAddr,
       mu_txid = ''ffffffffffffffffffffffffffffffffffffffffffffffffffffffffffffffff'', mu_vout = 0\<rparr>]
     (Some multisigAddr) script rawPrevTx destination
   = (case addInput plib (newPsbt plib)
             \<lparr>id_hash = ''eeeeeeeeeeeeeeeeeeeeeeeeeeeeeeeeeeeeeeeeeeeeeeeeeeeeeeeeeeeeeeee'',
              id_index = 1, id_redeemScript = script, id_nonWitnessUtxo = rawPrevTx\<rparr> of
        Inl e \<Rightarrow> Inl e
      | Inr p \<Rightarrow> addOutput plib p \<lparr>od_address = destination, od_value = 5989999\<rparr>)
   \<and> spendValue (btc 6000000) = 6000000 - 10000 - 1"
proof -
  have "\<bar>jsSub (btc 1000000) FUNDING_AMOUNT_BTC\<bar> < double (1 / 10000)"
    by (simp add: jsSub_def btc_def FUNDING_AMOUNT_BTC_def double_eval)
  then have r: "received
     [\<lparr>mu_amount = a, mu_address = multisigAddr, mu_txid = t, mu_vout = v\<rparr>,
      \<lparr>mu_amount = btc 1000000, mu_address = multisigAddr, mu_txid = t', mu_vout = v'\<rparr>]
     (Some multisigAddr)" for a t v t' v'
    by (simp add: received_def)
  have v: "spendValue (btc 6000000) = 5989999"
    by (simp add: spendValue_def btc_def jsMul_def jsSub_def double_eval)
  show ?thesis
    unfolding prepareSpend_def findSpendUtxo_def buildSpend_def
    by (simp add: r v cong: sum.case_cong)
qed

subsection \<open>Finalization\<close>

lemma validSigners_distinct: "distinct (validSigners valid inp)"
  by (simp add: validSigners_def)

lemma validSigners_subset:
  "set (validSigners valid inp) \<subseteq> set (rs_pubkeys (in_redeemScript inp))"
  by (auto simp add: validSigners_def)

lemma signatureOf_valid:
  "signatureOf valid sigs pk = Some sg \<Longrightarrow> (pk, sg) \<in> set sigs \<and> valid pk sg"
  by (induction sigs) (auto simp add: signatureOf_def split: if_splits)

lemma validSigners_signed:
  "pk \<in> set (validSigners valid inp) \<Longrightarrow>
     \<exists>sg. (pk, sg) \<in> set (in_partialSig inp) \<and> valid pk sg"
  using signatureOf_valid [of valid "in_partialSig inp" pk]
  by (auto simp add: validSigners_def)

lemma exampleSpend_signed_once:
  "signInput [1] (toSigner exampleSign keyA) exampleSpend =
     \<lparr>psbt_inputs = [\<lparr>in_hash = ''ff'', in_index = 0,
                       in_redeemScript = \<lparr>rs_m = 2, rs_pubkeys = [[2, 187], [3, 17], [3, 170]]\<rparr>,
                       in_nonWitnessUtxo = ''0200'', in_partialSig = [([3, 170], [3, 170, 1])]\<rparr>],
      psbt_outputs = [\<lparr>out_address = ''mq'', out_value = 990000\<rparr>]\<rparr>"
  by (simp add: signInput_def toSigner_def exampleSpend_def exampleSign_def keyA_def)

lemma exampleSpend_signed_twice:
  "signWithFirstKeys exampleSign [1] [keyA, keyB, keyC] exampleSpend =
     Inr \<lparr>psbt_inputs = [\<lparr>in_hash = ''ff'', in_index = 0,
                       in_redeemScript = \<lparr>rs_m = 2, rs_pubkeys = [[2, 187], [3, 17], [3, 170]]\<rparr>,
                       in_nonWitnessUtxo = ''0200'',
                       in_partialSig = [([3, 170], [3, 170, 1]), ([2, 187], [2, 187, 1])]\<rparr>],
      psbt_outputs = [\<lparr>out_address = ''mq'', out_value = 990000\<rparr>]\<rparr>"
  by (simp add: signWithFirstKeys_def REQUIRED_SIGNATURES_def signInput_def toSigner_def
      exampleSpend_def exampleSign_def keyA_def keyB_def)

text \<open>
  C2. On the finalization modelled from the specification: a transaction whose input
  carries valid signatures of fewer distinct keys of the redeem script than the
  threshold fails to finalize with \<open>IncompleteSignatureSet\<close>; with valid signatures of
  exactly as many distinct keys as the threshold it finalizes into a transaction whose
  input spends the same output, carries that many signatures and the redeem script,
  and whose outputs are unchanged. The signers counted are distinct keys of the redeem
  script, each with a valid signature attached.
\<close>

theorem finalize_requires_threshold_signatures:
  "(length (validSigners valid inp) < rs_m (in_redeemScript inp) \<longrightarrow>
      finalizeAllInputs valid \<lparr>psbt_inputs = [inp], psbt_outputs = outs\<rparr>
        = Inl IncompleteSignatureSet)
   \<and> (length (validSigners valid inp) = rs_m (in_redeemScript inp) \<longrightarrow>
        (\<exists>sigs. finalizeAllInputs valid \<lparr>psbt_inputs = [inp], psbt_outputs = outs\<rparr>
           = Inr \<lparr>tx_inputs = [\<lparr>fin_hash = in_hash inp, fin_index = in_index inp,
                                  fin_signatures = sigs,
                                  fin_redeemScript = in_redeemScript inp\<rparr>],
                  tx_outputs = outs\<rparr>
           \<and> length sigs = rs_m (in_redeemScript inp)))
   \<and> distinct (validSigners valid inp)
   \<and> (\<forall>pk\<in>set (validSigners valid inp).
         pk \<in> set (rs_pubkeys (in_redeemScript inp))
         \<and> (\<exists>sg. (pk, sg) \<in> set (in_partialSig inp) \<and> valid pk sg))"
proof -
  have "\<forall>pk\<in>set (validSigners valid inp).
         pk \<in> set (rs_pubkeys (in_redeemScript inp))
         \<and> (\<exists>sg. (pk, sg) \<in> set (in_partialSig inp) \<and> valid pk sg)"
    using validSigners_subset [of valid inp] validSigners_signed [of _ valid inp] by blast
  then show ?thesis
    by (simp add: finalizeAllInputs_def finalizeInput_def Let_def validSigners_distinct)
qed

theorem finalize_requires_threshold_signatures_witness:
  "finalizeAllInputs exampleValid (signInput [1] (toSigner exampleSign keyA) exampleSpend)
     = Inl IncompleteSignatureSet
   \<and> (case signWithFirstKeys exampleSign [1] [keyA, keyB, keyC] exampleSpend of
        Inl e \<Rightarrow> False
      | Inr signedTx \<Rightarrow>
          finalizeAllInputs exampleValid signedTx
            = Inr \<lparr>tx_inputs = [\<lparr>fin_hash = ''ff'', fin_index = 0,
                                   fin_signatures = [[2, 187, 1], [3, 170, 1]],
                                   fin_redeemScript =
                                     \<lparr>rs_m = 2, rs_pubkeys = [[2, 187], [3, 17], [3, 170]]\<rparr>\<rparr>],
                   tx_outputs = [\<lparr>out_address = ''mq'', out_value = 990000\<rparr>]\<rparr>)"
proof -
  let ?redeem = "\<lparr>rs_m = 2, rs_pubkeys = [[2, 187], [3, 17], [3, 170 :: 8 word]]\<rparr>"
  let ?one = "\<lparr>in_hash = ''ff'', in_index = 0, in_redeemScript = ?redeem,
                in_nonWitnessUtxo = ''0200'', in_partialSig = [([3, 170], [3, 170, 1])]\<rparr>"
  let ?two = "\<lparr>in_hash = ''ff'', in_index = 0, in_redeemScript = ?redeem,
                in_nonWitnessUtxo = ''0200'',
                in_partialSig = [([3, 170], [3, 170, 1]), ([2, 187], [2, 187, 1])]\<rparr>"
  let ?outs = "[\<lparr>out_address = ''mq'', out_value = 990000\<rparr>]"
  have one: "validSigners exampleValid ?one = [[3, 170]]"
    by (simp add: validSigners_def signatureOf_def exampleValid_def)
  have two: "validSigners exampleValid ?two = [[2, 187], [3, 170]]"
    by (simp add: validSigners_def signatureOf_def exampleValid_def)
  from finalize_requires_threshold_signatures [of exampleValid ?one ?outs] one
  have a: "finalizeAllInputs exampleValid (signInput [1] (toSigner exampleSign keyA) exampleSpend)
             = Inl IncompleteSignatureSet"
    by (simp add: exampleSpend_signed_once)
  from finalize_requires_threshold_signatures [of exampleValid ?two ?outs] two
  obtain sigs where "finalizeAllInputs exampleValid \<lparr>psbt_inputs = [?two], psbt_outputs = ?outs\<rparr>
             = Inr \<lparr>tx_inputs = [\<lparr>fin_hash = ''ff'', fin_index = 0, fin_signatures = sigs,
                                    fin_redeemScript = ?redeem\<rparr>],
                    tx_outputs = ?outs\<rparr>"
    by auto
  moreover have "finalizeAllInputs exampleValid \<lparr>psbt_inputs = [?two], psbt_outputs = ?outs\<rparr>
             = Inr \<lparr>tx_inputs = [\<lparr>fin_hash = ''ff'', fin_index = 0,
                                    fin_signatures = [[2, 187, 1], [3, 170, 1]],
                                    fin_redeemScript = ?redeem\<rparr>],
                    tx_outputs = ?outs\<rparr>"
    by (simp add: finalizeAllInputs_def finalizeInput_def Let_def two signatureOf_def
        exampleValid_def)
  ultimately show ?thesis using a by (simp add: exampleSpend_signed_twice)
qed

end
